theory Spec2Isabelle
  imports Main
begin

section \<open>Python values the agent handles\<close>

subsection \<open>Text\<close>

text \<open>
  Python text is modelled as \<open>string\<close>: a list of characters with code points below 256.
  \<open>str.strip()\<close> removes the characters for which \<open>str.isspace()\<close> holds; in that
  range these are the code points 9 to 13, 28 to 32, 133 and 160.
\<close>

definition is_space :: "char \<Rightarrow> bool" where
  "is_space c = (c \<in> set [CHR 0x09, CHR 0x0A, CHR 0x0B, CHR 0x0C, CHR 0x0D,
                           CHR 0x1C, CHR 0x1D, CHR 0x1E, CHR 0x1F, CHR 0x20,
                           CHR 0x85, CHR 0xA0])"

definition strip :: "string \<Rightarrow> string" where
  "strip s = rev (dropWhile is_space (rev (dropWhile is_space s)))"

text \<open>
  \<open>str.lower()\<close> on code points below 256: the letters A to Z and the upper-case
  letters 192 to 222 (the multiplication sign 215 apart) move up by 32.
\<close>

definition lower_char :: "char \<Rightarrow> char" where
  "lower_char c =
     (let n = (of_char c :: nat)
      in if (65 \<le> n \<and> n \<le> 90) \<or> (192 \<le> n \<and> n \<le> 222 \<and> n \<noteq> 215)
         then char_of (n + 32) else c)"

definition lower :: "string \<Rightarrow> string" where
  "lower s = map lower_char s"

subsection \<open>Exceptions\<close>

text \<open>
  The classes of \<open>errors/errors.py\<close>. \<open>mro\<close> lists a class and its bases inside the
  \<open>AgentError\<close> hierarchy, nearest first, as the class statements give them.
\<close>

datatype cls =
    CAgentError | CInternalError | CInvalidConfigError | CFuzzerLaunchError
  | CFuzzerAbortedError | CFileDownloadError | CRemoteFileDeleteError
  | CRemoteFileLookupError | CFileUploadError | CResourceLimitExceeded
  | CRamLimitExceeded | CTmpfsLimitExceeded | CTimeLimitExceeded

fun mro :: "cls \<Rightarrow> cls list" where
  "mro CAgentError = [CAgentError]"
| "mro CInternalError = [CInternalError, CAgentError]"
| "mro CInvalidConfigError = [CInvalidConfigError, CAgentError]"
| "mro CFuzzerLaunchError = [CFuzzerLaunchError, CAgentError]"
| "mro CFuzzerAbortedError = [CFuzzerAbortedError, CAgentError]"
| "mro CFileDownloadError = [CFileDownloadError, CInternalError, CAgentError]"
| "mro CRemoteFileDeleteError = [CRemoteFileDeleteError, CInternalError, CAgentError]"
| "mro CRemoteFileLookupError = [CRemoteFileLookupError, CInternalError, CAgentError]"
| "mro CFileUploadError = [CFileUploadError, CInternalError, CAgentError]"
| "mro CResourceLimitExceeded = [CResourceLimitExceeded, CAgentError]"
| "mro CRamLimitExceeded = [CRamLimitExceeded, CResourceLimitExceeded, CAgentError]"
| "mro CTmpfsLimitExceeded = [CTmpfsLimitExceeded, CResourceLimitExceeded, CAgentError]"
| "mro CTimeLimitExceeded = [CTimeLimitExceeded, CInternalError, CAgentError]"

text \<open>
  \<open>errors/codes.py\<close> is not among the sources: the values of its constants are a
  parameter, one field for each name that \<open>errors.py\<close> uses.
\<close>

record codes =
  E_INTERNAL_ERROR :: string
  E_CONFIG_INVALID :: string
  E_FUZZER_LAUNCH_ERROR :: string
  E_FUZZER_ABORTED :: string
  E_RAM_LIMIT_EXCEEDED :: string
  E_TMPFS_LIMIT_EXCEEDED :: string

text \<open>An \<open>AgentError\<close> instance: its class and the three \<open>args\<close>.\<close>

record agent_error =
  cls :: cls
  code :: string
  message :: string
  details :: "string option"

definition isinstance :: "agent_error \<Rightarrow> cls \<Rightarrow> bool" where
  "isinstance e c = (c \<in> set (mro (cls e)))"

definition InternalError :: "codes \<Rightarrow> string option \<Rightarrow> agent_error" where
  "InternalError cs d =
     \<lparr>cls = CInternalError, code = E_INTERNAL_ERROR cs,
      message = ''Internal error'', details = d\<rparr>"

definition InvalidConfigError :: "codes \<Rightarrow> string \<Rightarrow> agent_error" where
  "InvalidConfigError cs d =
     \<lparr>cls = CInvalidConfigError, code = E_CONFIG_INVALID cs,
      message = ''Fuzzer configuration is invalid'', details = Some d\<rparr>"

definition FuzzerLaunchError :: "codes \<Rightarrow> string \<Rightarrow> string option \<Rightarrow> agent_error" where
  "FuzzerLaunchError cs m d =
     \<lparr>cls = CFuzzerLaunchError, code = E_FUZZER_LAUNCH_ERROR cs, message = m, details = d\<rparr>"

definition FuzzerAbortedError :: "codes \<Rightarrow> agent_error" where
  "FuzzerAbortedError cs =
     \<lparr>cls = CFuzzerAbortedError, code = E_FUZZER_ABORTED cs,
      message = ''Fuzzer aborted'', details = None\<rparr>"

text \<open>The four storage errors and \<open>TimeLimitExceeded\<close> have an empty body under
  \<open>InternalError\<close>: they inherit its constructor.\<close>

definition FileDownloadError :: "codes \<Rightarrow> string option \<Rightarrow> agent_error" where
  "FileDownloadError cs d = (InternalError cs d)\<lparr>cls := CFileDownloadError\<rparr>"

definition RemoteFileDeleteError :: "codes \<Rightarrow> string option \<Rightarrow> agent_error" where
  "RemoteFileDeleteError cs d = (InternalError cs d)\<lparr>cls := CRemoteFileDeleteError\<rparr>"

definition RemoteFileLookupError :: "codes \<Rightarrow> string option \<Rightarrow> agent_error" where
  "RemoteFileLookupError cs d = (InternalError cs d)\<lparr>cls := CRemoteFileLookupError\<rparr>"

definition FileUploadError :: "codes \<Rightarrow> string option \<Rightarrow> agent_error" where
  "FileUploadError cs d = (InternalError cs d)\<lparr>cls := CFileUploadError\<rparr>"

definition RamLimitExceeded :: "codes \<Rightarrow> agent_error" where
  "RamLimitExceeded cs =
     \<lparr>cls = CRamLimitExceeded, code = E_RAM_LIMIT_EXCEEDED cs,
      message = ''Ram limit exceeded'', details = None\<rparr>"

definition TmpfsLimitExceeded :: "codes \<Rightarrow> agent_error" where
  "TmpfsLimitExceeded cs =
     \<lparr>cls = CTmpfsLimitExceeded, code = E_TMPFS_LIMIT_EXCEEDED cs,
      message = ''No space left on tmpfs'', details = None\<rparr>"

definition TimeLimitExceeded :: "codes \<Rightarrow> string option \<Rightarrow> agent_error" where
  "TimeLimitExceeded cs d = (InternalError cs d)\<lparr>cls := CTimeLimitExceeded\<rparr>"

text \<open>
  What a call can raise: an \<open>AgentError\<close>, the cluster client's \<open>ApiException\<close> with
  its status and reason, asyncio's \<open>CancelledError\<close>, or another Python exception
  under \<open>Exception\<close>, named by its class.
\<close>

datatype exc =
    Agent agent_error
  | ApiException nat string
  | CancelledError
  | PyExc string

subsection \<open>\<open>int(...)\<close> on text\<close>

definition is_digit :: "char \<Rightarrow> bool" where
  "is_digit c = (c \<in> set ''0123456789'')"

fun no_double_underscore :: "string \<Rightarrow> bool" where
  "no_double_underscore (a # b # r) =
     (\<not> (a = CHR ''_'' \<and> b = CHR ''_'') \<and> no_double_underscore (b # r))"
| "no_double_underscore _ = True"

definition valid_body :: "string \<Rightarrow> bool" where
  "valid_body b =
     (case b of [] \<Rightarrow> False
      | c # r \<Rightarrow> is_digit c \<and> is_digit (last b)
                 \<and> list_all (\<lambda>x. is_digit x \<or> x = CHR ''_'') b
                 \<and> no_double_underscore b)"

definition digits_val :: "string \<Rightarrow> int" where
  "digits_val b = foldl (\<lambda>acc c. 10 * acc + (int (of_char c) - 48)) 0 (filter is_digit b)"

text \<open>
  Python's \<open>int(s)\<close> for text: surrounding whitespace is dropped, one sign is allowed,
  then decimal digits, single underscores between digits allowed. \<open>None\<close> is the
  \<open>ValueError\<close>.
\<close>

definition py_int :: "string \<Rightarrow> int option" where
  "py_int s =
     (let t = strip s;
          neg = (case t of [] \<Rightarrow> False | c # r \<Rightarrow> c = CHR ''-'');
          body = (case t of [] \<Rightarrow> []
                  | c # r \<Rightarrow> if c = CHR ''-'' \<or> c = CHR ''+'' then r else t)
      in if valid_body body
         then Some (if neg then - digits_val body else digits_val body)
         else None)"

subsection \<open>Documents read by \<open>yaml.safe_load\<close>\<close>

text \<open>
  The values a loaded document is made of, as far as the agent looks into them: null,
  booleans, integers, text, sequences and mappings with text keys.
\<close>

datatype yaml =
    YNull | YBool bool | YInt int | YStr string
  | YSeq "yaml list" | YMap "(string \<times> yaml) list"

text \<open>\<open>obj[k]\<close> for a text key \<open>k\<close>.\<close>

fun getitem_str :: "yaml \<Rightarrow> string \<Rightarrow> exc + yaml" where
  "getitem_str (YMap m) k =
     (case map_of m k of None \<Rightarrow> Inl (PyExc ''KeyError'') | Some v \<Rightarrow> Inr v)"
| "getitem_str _ k = Inl (PyExc ''TypeError'')"

text \<open>\<open>obj[0]\<close>: the first element of a sequence, the first character of a text; a mapping
  with text keys has no key \<open>0\<close>.\<close>

fun getitem_0 :: "yaml \<Rightarrow> exc + yaml" where
  "getitem_0 (YSeq []) = Inl (PyExc ''IndexError'')"
| "getitem_0 (YSeq (x # xs)) = Inr x"
| "getitem_0 (YStr []) = Inl (PyExc ''IndexError'')"
| "getitem_0 (YStr (c # cs)) = Inr (YStr [c])"
| "getitem_0 (YMap m) = Inl (PyExc ''KeyError'')"
| "getitem_0 _ = Inl (PyExc ''TypeError'')"

text \<open>\<open>int(obj)\<close>.\<close>

fun int_of_yaml :: "yaml \<Rightarrow> exc + int" where
  "int_of_yaml (YInt n) = Inr n"
| "int_of_yaml (YBool b) = Inr (if b then 1 else 0)"
| "int_of_yaml (YStr s) =
     (case py_int s of None \<Rightarrow> Inl (PyExc ''ValueError'') | Some n \<Rightarrow> Inr n)"
| "int_of_yaml _ = Inl (PyExc ''TypeError'')"

section \<open>The exec session: \<open>kubernetes/ws_client.py\<close>\<close>

definition STDIN_CHANNEL :: nat where "STDIN_CHANNEL = 0"
definition STDOUT_CHANNEL :: nat where "STDOUT_CHANNEL = 1"
definition STDERR_CHANNEL :: nat where "STDERR_CHANNEL = 2"
definition ERROR_CHANNEL :: nat where "ERROR_CHANNEL = 3"
definition RESIZE_CHANNEL :: nat where "RESIZE_CHANNEL = 4"

text \<open>
  A message of the websocket: a close message, a binary or text message with its data
  (binary data already decoded as UTF-8 with replacement), or a message of another type.
\<close>

datatype ws_msg = CLOSE | DATA string | OTHER

text \<open>
  What the socket does when \<open>update\<close> looks at it: \<open>sock.closed\<close> is true, or
  \<open>receive()\<close> delivers a message, or the wait times out. The socket is the list of
  what is still to come; when the list is empty nothing arrives any more and every wait
  times out.
\<close>

datatype sock_event = SockClosed | Recv ws_msg | Timeout

record ExecWSClient =
  connected :: bool
  channels :: "nat \<rightharpoonup> string"
  stdout :: bool
  stderr :: bool
  combine_output :: bool
  sock :: "sock_event list"
  returncode_memo :: "int option"

text \<open>
  \<open>__init__\<close>. The condition \<open>not stdout or not stderr and combine_output\<close> groups as
  Python groups it: \<open>and\<close> binds tighter than \<open>or\<close>. An \<open>or\<close> whose left operand is a
  negation or a \<open>not in\<close> is written as the conditional that Python evaluates: the left
  operand when it is true, the right one otherwise.
\<close>

definition ExecWSClient_init :: "sock_event list \<Rightarrow> bool \<Rightarrow> bool \<Rightarrow> bool \<Rightarrow> ExecWSClient" where
  "ExecWSClient_init ws_response out err comb =
     (let force = (if \<not> out then True else \<not> err \<and> comb)
      in \<lparr>connected = True, channels = Map.empty,
          stdout = (if force then True else out),
          stderr = (if force then True else err),
          combine_output = comb,
          sock = ws_response,
          returncode_memo = None\<rparr>)"

definition peek_channel :: "ExecWSClient \<Rightarrow> nat \<Rightarrow> string option \<Rightarrow> string option" where
  "peek_channel s channel dflt =
     (case channels s channel of None \<Rightarrow> dflt | Some v \<Rightarrow> Some v)"

definition read_channel :: "ExecWSClient \<Rightarrow> nat \<Rightarrow> string option \<Rightarrow> string option \<times> ExecWSClient" where
  "read_channel s channel dflt =
     (case channels s channel of
        None \<Rightarrow> (dflt, s)
      | Some v \<Rightarrow> (Some v, s\<lparr>channels := (channels s)(channel := None)\<rparr>))"

definition peek_stdout :: "ExecWSClient \<Rightarrow> string option \<Rightarrow> string option" where
  "peek_stdout s dflt = peek_channel s STDERR_CHANNEL dflt"

definition read_stdout :: "ExecWSClient \<Rightarrow> string option \<Rightarrow> string option \<times> ExecWSClient" where
  "read_stdout s dflt = read_channel s STDOUT_CHANNEL dflt"

definition peek_stderr :: "ExecWSClient \<Rightarrow> string option \<Rightarrow> string option" where
  "peek_stderr s dflt = peek_channel s STDERR_CHANNEL dflt"

definition read_stderr :: "ExecWSClient \<Rightarrow> string option \<Rightarrow> string option \<times> ExecWSClient" where
  "read_stderr s dflt = read_channel s STDERR_CHANNEL dflt"

definition is_open :: "ExecWSClient \<Rightarrow> bool" where
  "is_open s = connected s"

text \<open>The body of \<open>update\<close> for a received binary or text message.\<close>

definition store_frame :: "ExecWSClient \<Rightarrow> string \<Rightarrow> ExecWSClient" where
  "store_frame s data =
     (if length data > 2 then
        (let channel = (of_char (hd data) :: nat); payload = tl data
         in if (if channel \<notin> set [STDOUT_CHANNEL, STDERR_CHANNEL] then True
                else (channel = STDOUT_CHANNEL \<and> stdout s)
                     \<or> (channel = STDERR_CHANNEL \<and> stderr s))
            then
              (let channel' = (if channel = STDERR_CHANNEL \<and> combine_output s
                               then STDOUT_CHANNEL else channel)
               in case channels s channel' of
                    None \<Rightarrow> s\<lparr>channels := (channels s)(channel' \<mapsto> payload)\<rparr>
                  | Some old \<Rightarrow> s\<lparr>channels := (channels s)(channel' \<mapsto> old @ payload)\<rparr>)
            else s)
      else s)"

text \<open>
  \<open>update(timeout)\<close>. The timeout is a whole number of seconds or \<open>None\<close>; comparing
  \<open>None\<close> with \<open>0\<close> raises \<open>TypeError\<close>. A message or a timeout is taken from the
  socket only when the call gets as far as \<open>receive()\<close>.
\<close>

definition update :: "ExecWSClient \<Rightarrow> int option \<Rightarrow> exc + ExecWSClient" where
  "update s timeout =
     (if \<not> is_open s then Inr s
      else if (case sock s of SockClosed # _ \<Rightarrow> True | _ \<Rightarrow> False)
           then Inr (s\<lparr>connected := False\<rparr>)
      else case timeout of
             None \<Rightarrow> Inl (PyExc ''TypeError'')
           | Some t \<Rightarrow>
               if t \<le> 0 then Inr s
               else (case sock s of
                       [] \<Rightarrow> Inr s
                     | Timeout # rest \<Rightarrow> Inr (s\<lparr>sock := rest\<rparr>)
                     | Recv CLOSE # rest \<Rightarrow> Inr (s\<lparr>sock := rest, connected := False\<rparr>)
                     | Recv (DATA data) # rest \<Rightarrow> Inr (store_frame (s\<lparr>sock := rest\<rparr>) data)
                     | Recv OTHER # rest \<Rightarrow> Inr (s\<lparr>sock := rest\<rparr>)
                     | SockClosed # rest \<Rightarrow> Inr (s\<lparr>connected := False\<rparr>)))"

text \<open>\<open>int(err['details']['causes'][0]['message'])\<close>, each step of which can raise.\<close>

definition failure_code :: "yaml \<Rightarrow> exc + int" where
  "failure_code doc =
     (case getitem_str doc ''details'' of Inl e \<Rightarrow> Inl e | Inr d \<Rightarrow>
     (case getitem_str d ''causes'' of Inl e \<Rightarrow> Inl e | Inr causes \<Rightarrow>
     (case getitem_0 causes of Inl e \<Rightarrow> Inl e | Inr c \<Rightarrow>
     (case getitem_str c ''message'' of Inl e \<Rightarrow> Inl e | Inr m \<Rightarrow> int_of_yaml m))))"

text \<open>
  The \<open>returncode\<close> property. \<open>safe_load\<close> is the YAML reader. The result is the value
  read (or the exception) and the session, whose memo the first resolving read sets.
\<close>

definition returncode ::
  "(string \<Rightarrow> exc + yaml) \<Rightarrow> ExecWSClient \<Rightarrow> (exc + int option) \<times> ExecWSClient" where
  "returncode safe_load s =
     (if is_open s then (Inr None, s)
      else case returncode_memo s of
             Some rc \<Rightarrow> (Inr (Some rc), s)
           | None \<Rightarrow>
               (case peek_channel s ERROR_CHANNEL None of
                  None \<Rightarrow> (Inl (ApiException 500 ''Broken connection''), s)
                | Some err \<Rightarrow>
                    (case safe_load err of
                       Inl e \<Rightarrow> (Inl e, s)
                     | Inr doc \<Rightarrow>
                         (case getitem_str doc ''status'' of
                            Inl e \<Rightarrow> (Inl e, s)
                          | Inr st \<Rightarrow>
                              if st = YStr ''Success''
                              then (Inr (Some 0), s\<lparr>returncode_memo := Some 0\<rparr>)
                              else (case failure_code doc of
                                      Inl e \<Rightarrow> (Inl e, s)
                                    | Inr rc \<Rightarrow>
                                        (Inr (Some rc), s\<lparr>returncode_memo := Some rc\<rparr>))))))"

text \<open>A run of \<open>update\<close> calls, each with its timeout, stopping at the first exception.\<close>

fun updates :: "ExecWSClient \<Rightarrow> int option list \<Rightarrow> exc + ExecWSClient" where
  "updates s [] = Inr s"
| "updates s (t # ts) = (case update s t of Inl e \<Rightarrow> Inl e | Inr s' \<Rightarrow> updates s' ts)"

section \<open>The container manager: \<open>kubernetes/manager.py\<close>\<close>

text \<open>
  The parts of the cluster's container status that the agent reads. \<open>running\<close> is
  \<open>None\<close> or the (unread) running state.
\<close>

record V1ContainerStateTerminated =
  exit_code :: int
  reason :: string

record V1ContainerState =
  running :: "unit option"
  terminated :: "V1ContainerStateTerminated option"

record V1ContainerStatus =
  name :: string
  state :: V1ContainerState

text \<open>The runner's configuration file, as \<open>exec_command\<close> builds it.\<close>

record runner_cfg =
  command :: "string list"
  env :: "(string \<times> string) list"
  cwd :: string
  streams_stdin :: "string option"
  streams_stdout :: "string option"
  streams_stderr :: "string option"
  poll_interval_ms :: int
  grace_period_sec :: int
  run_timeout_sec :: "int option"

text \<open>The manager's fields, and the settings and paths it reads.\<close>

record UserContainerManager =
  namespace :: string
  pod_name :: string
  user_container :: string
  paths_runner_binary :: string
  paths_runner_config :: string
  settings_poll_interval_ms :: int
  settings_grace_period_sec :: int

text \<open>
  What lies outside the agent, as far as \<open>exec_command\<close> meets it: the outcome of opening
  the exec session (an exception, or the websocket with what it will deliver), the
  outcome of reading the pod (an exception, or \<open>pod.status.container_statuses\<close>, which
  can be \<open>None\<close>), the outcome of reading the pod's log (an exception, or the HTTP status,
  its reason and the decoded body), and the YAML reader.
\<close>

record world =
  exec_session :: "exc + sock_event list"
  pod_read :: "exc + V1ContainerStatus list option"
  pod_log :: "exc + nat \<times> string \<times> string"
  safe_load :: "string \<Rightarrow> exc + yaml"

text \<open>The calls that leave the agent, in the order they are made.\<close>

datatype api_call =
    WriteRunnerConfig string runner_cfg
  | PodExec string string string "string list"
  | ReadPod string string
  | ReadPodLog string string string

text \<open>The \<open>for\<close> loop of \<open>read_fuzzer_container\<close> and the \<open>raise\<close> after it.\<close>

fun first_other :: "string \<Rightarrow> V1ContainerStatus list \<Rightarrow> exc + V1ContainerStatus" where
  "first_other uc [] = Inl (ApiException 404 ''Fuzzer container not found'')"
| "first_other uc (cont_status # rest) =
     (if name cont_status \<noteq> uc then Inr cont_status else first_other uc rest)"

definition read_fuzzer_container ::
  "UserContainerManager \<Rightarrow> exc + V1ContainerStatus list option \<Rightarrow> exc + V1ContainerStatus" where
  "read_fuzzer_container m pod =
     (case pod of
        Inl e \<Rightarrow> Inl e
      | Inr None \<Rightarrow> Inl (PyExc ''TypeError'')
      | Inr (Some cont_statuses) \<Rightarrow> first_other (user_container m) cont_statuses)"

definition read_monitor_output :: "exc + nat \<times> string \<times> string \<Rightarrow> exc + string" where
  "read_monitor_output resp =
     (case resp of
        Inl e \<Rightarrow> Inl e
      | Inr (status, rsn, body) \<Rightarrow>
          if status \<noteq> 200 then Inl (ApiException status rsn) else Inr body)"

text \<open>\<open>s += v\<close> for a text \<open>s\<close>: adding \<open>None\<close> raises.\<close>

definition add_text :: "string \<Rightarrow> string option \<Rightarrow> exc + string" where
  "add_text s v = (case v of None \<Rightarrow> Inl (PyExc ''TypeError'') | Some t \<Rightarrow> Inr (s @ t))"

text \<open>
  The loop \<open>while resp.is_open()\<close> of \<open>exec_command\<close>. It returns the closed session
  and the two accumulated texts, or the exception that left it. When the session is
  open and the socket has nothing more to deliver, every further \<open>update\<close> times out and
  the loop never ends: that is \<open>None\<close>.
\<close>

function drain ::
  "ExecWSClient \<Rightarrow> string \<Rightarrow> string \<Rightarrow> (exc + ExecWSClient \<times> string \<times> string) option" where
  "drain resp runner_logs runner_output =
     (if \<not> is_open resp then Some (Inr (resp, runner_logs, runner_output))
      else if sock resp = [] then None
      else case update resp (Some 5) of
             Inl e \<Rightarrow> Some (Inl e)
           | Inr r1 \<Rightarrow>
               (case add_text runner_logs (fst (read_stderr r1 (Some ''''))) of
                  Inl e \<Rightarrow> Some (Inl e)
                | Inr logs' \<Rightarrow>
                    (case add_text runner_output
                            (fst (read_stdout (snd (read_stderr r1 (Some ''''))) (Some ''''))) of
                       Inl e \<Rightarrow> Some (Inl e)
                     | Inr output' \<Rightarrow>
                         drain (snd (read_stdout (snd (read_stderr r1 (Some ''''))) (Some '''')))
                               logs' output')))"
  by pat_completeness auto

termination drain
  by (relation "measure (\<lambda>(s, l, out). length (sock s) + (if connected s then 1 else 0))")
     (auto simp: update_def is_open_def store_frame_def read_stderr_def read_stdout_def
                 read_channel_def Let_def
           split: list.splits sock_event.splits ws_msg.splits if_splits option.splits)

text \<open>The exit-code dispatch of \<open>exec_command\<close>: the result and the calls it made.\<close>

definition dispatch ::
  "codes \<Rightarrow> UserContainerManager \<Rightarrow> world \<Rightarrow> int \<Rightarrow> string \<Rightarrow> string
     \<Rightarrow> (exc + int) \<times> api_call list" where
  "dispatch cs m w runner_exitcode runner_logs runner_output =
     (let rp = ReadPod (namespace m) (pod_name m);
          rl = ReadPodLog (namespace m) (pod_name m) (user_container m)
      in
      if runner_exitcode = 101 then (Inl (Agent (TimeLimitExceeded cs None)), [])
      else if runner_exitcode \<in> set [102, 128 + 9, 128 + 15] then
        (case read_fuzzer_container m (pod_read w) of
           Inl e \<Rightarrow> (Inl e, [rp])
         | Inr cont_info \<Rightarrow>
             (case terminated (state cont_info) of
                None \<Rightarrow> (Inl (Agent (InternalError cs None)), [rp])
              | Some cont_state_term \<Rightarrow>
                  if exit_code cont_state_term = 101
                  then (Inl (Agent (TmpfsLimitExceeded cs)), [rp])
                  else if exit_code cont_state_term = 102
                  then (Inl (Agent (FuzzerAbortedError cs)), [rp])
                  else if lower (strip (reason cont_state_term)) = ''oomkilled''
                  then (Inl (Agent (RamLimitExceeded cs)), [rp])
                  else (case read_monitor_output (pod_log w) of
                          Inl e \<Rightarrow> (Inl e, [rp, rl])
                        | Inr monitor_logs \<Rightarrow>
                            (Inl (Agent (InternalError cs None)), [rp, rl]))))
      else if runner_exitcode \<noteq> 0 then (Inl (Agent (InternalError cs None)), [])
      else (case py_int (strip runner_output) of
              None \<Rightarrow> (Inl (Agent (InternalError cs None)), [])
            | Some process_exitcode \<Rightarrow> (Inr process_exitcode, [])))"

text \<open>
  \<open>exec_command\<close>: the process exit code or the exception raised, with the calls made;
  \<open>None\<close> when the drain loop never ends.
\<close>

definition exec_command ::
  "codes \<Rightarrow> UserContainerManager \<Rightarrow> world \<Rightarrow> string list \<Rightarrow> string \<Rightarrow> (string \<times> string) list
     \<Rightarrow> string option \<Rightarrow> string option \<Rightarrow> string option \<Rightarrow> int option
     \<Rightarrow> ((exc + int) \<times> api_call list) option" where
  "exec_command cs m w cmd cwd' env' stdin_file stdout_file stderr_file time_limit =
     (let cfg = \<lparr>command = cmd, env = env', cwd = cwd',
                 streams_stdin = stdin_file, streams_stdout = stdout_file,
                 streams_stderr = stderr_file,
                 poll_interval_ms = settings_poll_interval_ms m,
                 grace_period_sec = settings_grace_period_sec m,
                 run_timeout_sec = time_limit\<rparr>;
          calls = [WriteRunnerConfig (paths_runner_config m) cfg,
                   PodExec (pod_name m) (namespace m) (user_container m)
                     [paths_runner_binary m, paths_runner_config m]]
      in case exec_session w of
           Inl e \<Rightarrow> Some (Inl e, calls)
         | Inr ws \<Rightarrow>
             (case drain (ExecWSClient_init ws True True False) [] [] of
                None \<Rightarrow> None
              | Some (Inl e) \<Rightarrow> Some (Inl e, calls)
              | Some (Inr (resp, runner_logs, runner_output)) \<Rightarrow>
                  (case fst (returncode (safe_load w) resp) of
                     Inl e \<Rightarrow> Some (Inl e, calls)
                   | Inr None \<Rightarrow> Some (Inl (PyExc ''AssertionError''), calls)
                   | Inr (Some runner_exitcode) \<Rightarrow>
                       Some (fst (dispatch cs m w runner_exitcode runner_logs runner_output),
                             calls @ snd (dispatch cs m w runner_exitcode runner_logs
                                            runner_output)))))"

section \<open>The orchestrator: \<open>entry.py\<close>\<close>

subsection \<open>Messages: \<open>output.py\<close>\<close>

record CrashBase =
  crash_type :: string
  input_id :: "string option"
  input :: "string option"
  crash_output :: string
  reproduced :: bool

record Status =
  code :: string
  message :: string
  details :: "string option"

record Metrics =
  tmpfs :: int
  memory :: int

record Statistics =
  work_time :: int

record AgentOutput =
  status :: Status
  metrics :: Metrics
  crashes_found :: int
  statistics :: "Statistics option"

text \<open>
  A run-result message, as \<open>_dump_ok\<close> and \<open>_dump_err\<close> produce it: the two times of the
  measure and the agent's output. (The identifying fields are copied from the settings
  and are left out; a time is a number of seconds, its formatting is left out.)
\<close>

record run_result =
  start_time :: nat
  finish_time :: nat
  agent_result :: AgentOutput

text \<open>
  What the agent writes to outside itself: the crash inputs in content storage by
  identifier, the crash messages with their creation time, and the run-result messages.
\<close>

record outside =
  crash_store :: "string \<rightharpoonup> string"
  crash_msgs :: "(CrashBase \<times> nat) list"
  run_results :: "run_result list"

subsection \<open>\<open>_send_crash\<close>\<close>

text \<open>
  What one call of \<open>_send_crash\<close> meets: the ten characters \<open>random_string\<close> draws,
  the base64 decoder, whether the storage refuses the upload, and whether producing
  the crash message raises.
\<close>

record crash_io =
  random_string10 :: string
  b64decode :: "string \<Rightarrow> exc + string"
  upload_refused :: bool
  produce_crash :: "exc option"

text \<open>\<open>FileTransfer.upload_crash\<close>: a storage error becomes \<open>FileUploadError("crash")\<close>.\<close>

definition upload_crash ::
  "codes \<Rightarrow> crash_io \<Rightarrow> string \<Rightarrow> string \<Rightarrow> outside \<Rightarrow> exc + outside" where
  "upload_crash cs io ident input_bytes out =
     (if upload_refused io then Inl (Agent (FileUploadError cs (Some ''crash'')))
      else Inr (out\<lparr>crash_store := (crash_store out)(ident \<mapsto> input_bytes)\<rparr>))"

text \<open>
  \<open>_send_crash\<close>: the outcome, the crash record as the call leaves it, and the outside.
  \<open>len(None)\<close> raises \<open>TypeError\<close>.
\<close>

definition send_crash ::
  "codes \<Rightarrow> crash_io \<Rightarrow> nat \<Rightarrow> string \<Rightarrow> nat \<Rightarrow> CrashBase \<Rightarrow> outside
     \<Rightarrow> (exc + unit) \<times> CrashBase \<times> outside" where
  "send_crash cs io crash_max_size run_id created crash out =
     (case input crash of
        None \<Rightarrow> (Inl (PyExc ''TypeError''), crash, out)
      | Some inp \<Rightarrow>
          (let offload =
                 (if length inp > crash_max_size then
                    (case b64decode io inp of
                       Inl e \<Rightarrow> Inl e
                     | Inr input_bytes \<Rightarrow>
                         (case upload_crash cs io (run_id @ random_string10 io) input_bytes out of
                            Inl e \<Rightarrow> Inl e
                          | Inr out' \<Rightarrow>
                              Inr (crash\<lparr>input_id := Some (run_id @ random_string10 io),
                                         input := None\<rparr>, out')))
                  else Inr (crash, out))
           in case offload of
                Inl e \<Rightarrow> (Inl e, crash, out)
              | Inr (crash', out') \<Rightarrow>
                  (case produce_crash io of
                     Some e \<Rightarrow> (Inl e, crash', out')
                   | None \<Rightarrow>
                       (Inr (), crash',
                        out'\<lparr>crash_msgs := crash_msgs out' @ [(crash', created)]\<rparr>))))"

subsection \<open>\<open>signal_handler\<close>\<close>

text \<open>
  A signal's disposition: the default action, ignoring, a handler some Python code set
  before (named by a number), or the handler that \<open>get_handler\<close> builds for the task.
\<close>

datatype disposition = SIG_DFL | SIG_IGN | Handler nat | CancelTask

text \<open>
  The variables the handler closes over, whether \<open>_lock\<close> is held, and the number of
  \<open>task.cancel()\<close> calls.
\<close>

record handler_state =
  catched :: bool
  locked :: bool
  cancels :: nat

text \<open>
  Python runs a signal handler in the main thread, between two instructions of whatever
  runs there; a signal that arrives during a handler call starts a nested call, and the
  outer call goes on only when the nested one has returned. An arrival is the signal's
  number together with the arrivals during the handler call it starts: those before the
  call takes \<open>_lock\<close>, those while the call holds it, and those after the call has
  released it.
\<close>

datatype arrival = Arrival nat "arrival list" "arrival list" "arrival list"

text \<open>The body of \<open>_signal_handler\<close> inside \<open>with _lock\<close>.\<close>

definition signal_handler_body :: "handler_state \<Rightarrow> handler_state" where
  "signal_handler_body h =
     (if catched h then h else h\<lparr>catched := True, cancels := cancels h + 1\<rparr>)"

text \<open>
  A signal arrives: its current disposition decides; for the task's handler, one call
  of \<open>_signal_handler\<close> with the arrivals nested in it. \<open>_lock\<close> is a
  \<open>threading.Lock\<close>, which is not reentrant: a call that finds it held waits for it, and
  as the holder is a call of the same thread that cannot go on before this one returns,
  it waits forever. That is \<open>None\<close>.
\<close>

fun deliver :: "(nat \<Rightarrow> disposition) \<Rightarrow> handler_state \<Rightarrow> arrival \<Rightarrow> handler_state option"
  and deliver_all ::
    "(nat \<Rightarrow> disposition) \<Rightarrow> handler_state \<Rightarrow> arrival list \<Rightarrow> handler_state option" where
  "deliver tab h (Arrival signum early inside late) =
     (if tab signum = CancelTask then
        (case deliver_all tab h early of
           None \<Rightarrow> None
         | Some h1 \<Rightarrow>
             if locked h1 then None
             else (case deliver_all tab (h1\<lparr>locked := True\<rparr>) inside of
                     None \<Rightarrow> None
                   | Some h2 \<Rightarrow>
                       deliver_all tab ((signal_handler_body h2)\<lparr>locked := False\<rparr>) late))
      else Some h)"
| "deliver_all tab h [] = Some h"
| "deliver_all tab h (a # rest) =
     (case deliver tab h a of None \<Rightarrow> None | Some h' \<Rightarrow> deliver_all tab h' rest)"

text \<open>
  The \<open>for\<close> loop in the \<open>try\<close>: save the disposition, set the new handler.
  \<open>getsignal\<close> and \<open>signal\<close> raise \<open>ValueError\<close> for a number that is not a signal of
  the platform (\<open>valid\<close>).
\<close>

fun install ::
  "(nat \<Rightarrow> bool) \<Rightarrow> nat list \<Rightarrow> (nat \<Rightarrow> disposition) \<Rightarrow> disposition list
     \<Rightarrow> exc option \<times> (nat \<Rightarrow> disposition) \<times> disposition list" where
  "install valid [] tab handlers = (None, tab, handlers)"
| "install valid (signum # rest) tab handlers =
     (if \<not> valid signum then (Some (PyExc ''ValueError''), tab, handlers)
      else install valid rest (tab(signum := CancelTask)) (handlers @ [tab signum]))"

text \<open>The \<open>for\<close> loop in the \<open>finally\<close>, over \<open>zip(signums, _handlers)\<close>.\<close>

fun restore :: "(nat \<times> disposition) list \<Rightarrow> (nat \<Rightarrow> disposition) \<Rightarrow> (nat \<Rightarrow> disposition)" where
  "restore [] tab = tab"
| "restore ((signum, old_handler) # rest) tab = restore rest (tab(signum := old_handler))"

text \<open>
  \<open>wrapper\<close>: the signals in \<open>arrivals\<close> come in while the task is awaited; \<open>task\<close> is
  what the task ends with, given whether it was cancelled. The result is the value
  returned or exception raised, the dispositions afterwards, and the handler's state;
  \<open>None\<close> when a handler call waits forever, so that \<open>wrapper\<close> never returns.
\<close>

definition wrapper ::
  "(nat \<Rightarrow> bool) \<Rightarrow> nat list \<Rightarrow> (nat \<Rightarrow> disposition) \<Rightarrow> arrival list \<Rightarrow> (bool \<Rightarrow> exc + 'a)
     \<Rightarrow> ((exc + 'a) \<times> (nat \<Rightarrow> disposition) \<times> handler_state) option" where
  "wrapper valid signums tab arrivals task =
     (case install valid signums tab [] of
        (Some e, tab1, handlers) \<Rightarrow>
          Some (Inl e, restore (zip signums handlers) tab1,
                \<lparr>catched = False, locked = False, cancels = 0\<rparr>)
      | (None, tab1, handlers) \<Rightarrow>
          (case deliver_all tab1 \<lparr>catched = False, locked = False, cancels = 0\<rparr> arrivals of
             None \<Rightarrow> None
           | Some h \<Rightarrow> Some (task (cancels h > 0), restore (zip signums handlers) tab1, h)))"

definition SIGHUP :: nat where "SIGHUP = 1"
definition SIGINT :: nat where "SIGINT = 2"
definition SIGTERM :: nat where "SIGTERM = 15"

subsection \<open>\<open>agent_entry_inner\<close>\<close>

text \<open>
  The run mode that \<open>select_mode\<close> returns, by what the orchestrator sees of it: how
  \<open>run()\<close> and \<open>finish()\<close> end, and the attributes \<open>status\<close>, \<open>crashes\<close> and
  \<open>fuzz_statistics\<close> as \<open>run()\<close> leaves them.
\<close>

record AgentMode =
  run :: "exc option"
  mode_status :: "Status option"
  finish :: "exc option"
  crashes :: "CrashBase list"
  fuzz_statistics :: "Statistics option"

text \<open>
  What one call of \<open>agent_entry_inner\<close> meets. \<open>cancelled_is_exception\<close> tells whether
  \<open>asyncio.CancelledError\<close> is a subclass of \<open>Exception\<close> (Python 3.7) or only of
  \<open>BaseException\<close> (from 3.8 on); \<open>setup.py\<close> admits both. \<open>initialization\<close> is the first
  \<open>try\<close> block; \<open>storage_and_manager\<close> is \<open>object_storage_init\<close> and
  \<open>UserContainerManager.create\<close>; \<open>polls i\<close> is the pod read of the \<open>i\<close>-th readiness
  check and \<open>sleeps i\<close> the sleep after it; \<open>clock\<close> gives the start and the finish of
  the measure.
\<close>

record entry_world =
  cancelled_is_exception :: bool
  initialization :: "exc option"
  storage_and_manager :: "exc option"
  manager :: UserContainerManager
  polls :: "nat \<Rightarrow> exc + V1ContainerStatus list option"
  sleeps :: "nat \<Rightarrow> exc option"
  random_string40 :: string
  select_mode :: "exc + AgentMode"
  chdir :: "exc option"
  clock :: "nat \<times> nat"
  metrics_file :: "exc + Metrics"
  crash_max_size :: nat
  crash_ios :: "nat \<Rightarrow> crash_io"
  produce_run_result :: "exc option"
  shutdown :: "exc option"

text \<open>The local variable \<open>measure\<close>: not yet bound, or bound with its two times.\<close>

datatype measure = Unbound | Measured nat nat


text \<open>\<open>Status(code=e.code, message=e.message, details=e.details)\<close>.\<close>

definition status_of_error :: "agent_error \<Rightarrow> Status" where
  "status_of_error e =
     \<lparr>code = agent_error.code e, message = agent_error.message e,
      details = agent_error.details e\<rparr>"

text \<open>
  The handler \<open>except Exception as e\<close> around \<open>agent_mode.run()\<close>: the status it sets, or
  \<open>None\<close> when the exception is not caught there.
\<close>

definition classify :: "codes \<Rightarrow> bool \<Rightarrow> exc \<Rightarrow> Status option" where
  "classify cs cancelled_is_exc e =
     (case e of
        CancelledError \<Rightarrow>
          if cancelled_is_exc then Some (status_of_error (FuzzerAbortedError cs)) else None
      | Agent a \<Rightarrow> Some (status_of_error a)
      | _ \<Rightarrow> Some (status_of_error (InternalError cs None)))"







text \<open>The outside before the agent has written anything.\<close>

definition no_output :: outside where
  "no_output = \<lparr>crash_store = Map.empty, crash_msgs = [], run_results = []\<rparr>"



text \<open>A table of codes and a manager for evaluating the model at concrete inputs.\<close>

definition ex_codes :: codes where
  "ex_codes = \<lparr>E_INTERNAL_ERROR = ''E_INTERNAL_ERROR'', E_CONFIG_INVALID = ''E_CONFIG_INVALID'',
               E_FUZZER_LAUNCH_ERROR = ''E_FUZZER_LAUNCH_ERROR'',
               E_FUZZER_ABORTED = ''E_FUZZER_ABORTED'',
               E_RAM_LIMIT_EXCEEDED = ''E_RAM_LIMIT_EXCEEDED'',
               E_TMPFS_LIMIT_EXCEEDED = ''E_TMPFS_LIMIT_EXCEEDED''\<rparr>"

definition ex_manager :: UserContainerManager where
  "ex_manager = \<lparr>namespace = ''ns'', pod_name = ''pod'', user_container = ''target'',
                 paths_runner_binary = ''/bin/runner'', paths_runner_config = ''/cfg.json'',
                 settings_poll_interval_ms = 100, settings_grace_period_sec = 5\<rparr>"





definition ex_status :: "string \<Rightarrow> unit option \<Rightarrow> V1ContainerStateTerminated option \<Rightarrow> V1ContainerStatus" where
  "ex_status n r t = \<lparr>name = n, state = \<lparr>running = r, terminated = t\<rparr>\<rparr>"


text \<open>
  The status document the cluster sends on the error channel for a command that ended
  with exit code 137, as a YAML flow mapping with the message in double quotes, and a
  reader that knows this document and the document \<open>status: Success\<close>, and reads them
  as PyYAML does; it is applied to no other text.
\<close>

definition ex_failure_137 :: string where
  "ex_failure_137 =
     ''{status: Failure, details: {causes: [{reason: ExitCode, message: '' @ [CHR 0x22]
     @ ''137'' @ [CHR 0x22] @ ''}]}}''"

definition ex_status_reader :: "string \<Rightarrow> exc + yaml" where
  "ex_status_reader s =
     (if s = ''status: Success'' then Inr (YMap [(''status'', YStr ''Success'')])
      else if s = ex_failure_137 then
        Inr (YMap [(''status'', YStr ''Failure''),
                   (''details'', YMap [(''causes'',
                      YSeq [YMap [(''reason'', YStr ''ExitCode''),
                                  (''message'', YStr ''137'')]])])])
      else Inl (PyExc ''yaml.YAMLError''))"

text \<open>A world whose exec session delivers that document on the error channel and
  closes, and whose pod has the given container statuses.\<close>

definition ex_cluster :: "V1ContainerStatus list \<Rightarrow> world" where
  "ex_cluster sts =
     \<lparr>exec_session = Inr [Recv (DATA (CHR 0x03 # ex_failure_137)), Recv CLOSE],
      pod_read = Inr (Some sts),
      pod_log = Inr (200, ''OK'', ''monitor log''),
      safe_load = ex_status_reader\<rparr>"

text \<open>A socket event that carries a non-empty frame of the error channel.\<close>

fun error_frame :: "sock_event \<Rightarrow> bool" where
  "error_frame (Recv (DATA d)) = (d \<noteq> [] \<and> (of_char (hd d) :: nat) = ERROR_CHANNEL)"
| "error_frame _ = False"


text \<open>A closed session with the given channel buffers and nothing resolved yet.\<close>

definition ex_closed :: "(nat \<rightharpoonup> string) \<Rightarrow> ExecWSClient" where
  "ex_closed bufs =
     \<lparr>connected = False, channels = bufs, stdout = True, stderr = True,
      combine_output = False, sock = [], returncode_memo = None\<rparr>"

text \<open>
  One call of \<open>_send_crash\<close> in which everything works; the decoder knows one input,
  \<open>QUJD\<close>, the base64 text of \<open>ABC\<close>.
\<close>

definition ex_crash_io :: crash_io where
  "ex_crash_io =
     \<lparr>random_string10 = ''k3x9q0ab7z'',
      b64decode = (\<lambda>s. if s = ''QUJD'' then Inr ''ABC'' else Inl (PyExc ''binascii.Error'')),
      upload_refused = False,
      produce_crash = None\<rparr>"

definition ex_crash :: "string option \<Rightarrow> string option \<Rightarrow> CrashBase" where
  "ex_crash ident inp =
     \<lparr>crash_type = ''crash'', input_id = ident, input = inp,
      crash_output = ''SEGV'', reproduced = True\<rparr>"



section \<open>Properties of the exec session\<close>

subsection \<open>Buffer access\<close>

text \<open>
  C9. \<open>peek_stdout\<close> is documented as \<open>peek_channel\<close> with channel 1, but it reads
  the buffer of channel 2: after a frame \<open>out\<close> on channel 1 and a frame \<open>err\<close> on
  channel 2, \<open>peek_stdout\<close> returns \<open>err\<close> while channel 1 holds \<open>out\<close>.
\<close>

theorem peek_stdout_reads_stderr_buffer:
  "map_sum id (\<lambda>s. (peek_stdout s None, peek_channel s STDOUT_CHANNEL None))
     (updates (ExecWSClient_init [Recv (DATA (CHR 0x01 # ''out'')), Recv (DATA (CHR 0x02 # ''err''))]
                 True True False) [Some 5, Some 5])
   = Inr (Some ''err'', Some ''out'')"
  by (simp add: ExecWSClient_init_def update_def is_open_def store_frame_def peek_stdout_def
        peek_channel_def STDOUT_CHANNEL_def STDERR_CHANNEL_def)

subsection \<open>Frames\<close>

text \<open>
  C4. After the frames \<open>(1, AB)\<close>, \<open>(2, X)\<close>, \<open>(1, CD)\<close>, one \<open>update\<close> each, reading
  channel 1 gives \<open>ABCD\<close>, but reading channel 2 gives the default \<open>None\<close>, not \<open>X\<close>:
  \<open>update\<close> stores a frame only when the message is longer than two characters, so a
  frame with a payload of one character is dropped.
\<close>

theorem interleaved_frames_short_payload_dropped:
  "map_sum id (\<lambda>s. (fst (read_channel s 1 None), fst (read_channel s 2 None)))
     (updates (ExecWSClient_init [Recv (DATA (CHR 0x01 # ''AB'')), Recv (DATA (CHR 0x02 # ''X'')),
                                  Recv (DATA (CHR 0x01 # ''CD''))] True True False)
        [Some 5, Some 5, Some 5])
   = Inr (Some ''ABCD'', None)"
  by (simp add: ExecWSClient_init_def update_def is_open_def store_frame_def read_channel_def
        STDOUT_CHANNEL_def STDERR_CHANNEL_def)

text \<open>
  C5. A session constructed with stdout disabled (stderr enabled, no combined output)
  has stdout enabled after construction, and \<open>update\<close> keeps a frame of channel 1
  instead of dropping it.
\<close>

theorem stdout_disabled_frame_kept:
  "map_sum id (\<lambda>s. (stdout s, peek_channel s STDOUT_CHANNEL None))
     (update (ExecWSClient_init [Recv (DATA (CHR 0x01 # ''ABC''))] False True False) (Some 5))
   = Inr (True, Some ''ABC'')"
  by (simp add: ExecWSClient_init_def update_def is_open_def store_frame_def peek_channel_def
        STDOUT_CHANNEL_def STDERR_CHANNEL_def)

subsection \<open>What holds of buffer access and of frames\<close>

text \<open>
  X1. \<open>read_channel\<close> returns what \<open>peek_channel\<close> returns and removes the channel's
  buffer, leaving everything else of the session as it was; a peek after the read gives
  the default. \<open>read_stdout\<close> reads channel 1; \<open>peek_stderr\<close> and \<open>read_stderr\<close> access
  channel 2.
\<close>

theorem read_channel_removes_what_peek_returns:
  "fst (read_channel s c d) = peek_channel s c d
   \<and> snd (read_channel s c d) = s\<lparr>channels := (channels s)(c := None)\<rparr>
   \<and> peek_channel (snd (read_channel s c d)) c d' = d'
   \<and> read_stdout s d = read_channel s 1 d
   \<and> peek_stderr s d = peek_channel s 2 d
   \<and> read_stderr s d = read_channel s 2 d"
  by (cases "channels s c")
     (auto simp: read_channel_def peek_channel_def read_stdout_def peek_stderr_def read_stderr_def
                 STDOUT_CHANNEL_def STDERR_CHANNEL_def fun_upd_idem)

lemma update_sock:
  "update s t = Inr s' \<Longrightarrow> sock s' = sock s \<or> sock s' = tl (sock s)"
  by (auto simp: update_def store_frame_def Let_def
           split: if_splits option.splits list.splits sock_event.splits ws_msg.splits)

text \<open>
  X2. One \<open>update\<close> takes at most one event from the socket. For a frame whose message
  is longer than two characters: on a channel other than 1 and 2, or on an enabled
  channel 1, or on an enabled channel 2 without combined output, the payload is
  appended to that channel's buffer; on a disabled channel the frame is dropped; on an
  enabled channel 2 with combined output the payload is appended to the buffer of
  channel 1 and the buffer of channel 2 stays as it was. A session constructed with
  stdout enabled and no combined output keeps the stderr flag it was given; a session
  constructed with combined output has both channels enabled.
\<close>

theorem update_one_event_store_frame_filters:
  "(update s t = Inr s' \<longrightarrow> sock s' = sock s \<or> sock s' = tl (sock s))
   \<and> (length data > 2 \<and> of_char (hd data) = ch
        \<and> (if ch = 1 then stdout s else if ch = 2 then stderr s \<and> \<not> combine_output s else True)
      \<longrightarrow> store_frame s data =
            s\<lparr>channels := (channels s)(ch \<mapsto>
                 (case channels s ch of None \<Rightarrow> [] | Some old \<Rightarrow> old) @ tl data)\<rparr>)
   \<and> (length data > 2
        \<and> (of_char (hd data) = (1::nat) \<and> stdout s = False
            \<or> of_char (hd data) = (2::nat) \<and> stderr s = False)
      \<longrightarrow> store_frame s data = s)
   \<and> (length data > 2 \<and> of_char (hd data) = (2::nat) \<and> stderr s \<and> combine_output s
      \<longrightarrow> store_frame s data =
            s\<lparr>channels := (channels s)(1 \<mapsto>
                 (case channels s 1 of None \<Rightarrow> [] | Some old \<Rightarrow> old) @ tl data)\<rparr>
          \<and> channels (store_frame s data) 2 = channels s 2)
   \<and> stdout (ExecWSClient_init ws True err False)
   \<and> stderr (ExecWSClient_init ws True err False) = err
   \<and> stdout (ExecWSClient_init ws out err True)
   \<and> stderr (ExecWSClient_init ws out err True)"
proof (intro conjI impI)
  assume "update s t = Inr s'"
  then show "sock s' = sock s \<or> sock s' = tl (sock s)" by (rule update_sock)
next
  assume "length data > 2 \<and> of_char (hd data) = ch
        \<and> (if ch = 1 then stdout s else if ch = 2 then stderr s \<and> \<not> combine_output s else True)"
  then show "store_frame s data =
            s\<lparr>channels := (channels s)(ch \<mapsto>
                 (case channels s ch of None \<Rightarrow> [] | Some old \<Rightarrow> old) @ tl data)\<rparr>"
    by (auto simp: store_frame_def Let_def STDOUT_CHANNEL_def STDERR_CHANNEL_def
             split: option.splits if_splits)
next
  assume "length data > 2
        \<and> (of_char (hd data) = (1::nat) \<and> stdout s = False
            \<or> of_char (hd data) = (2::nat) \<and> stderr s = False)"
  then show "store_frame s data = s"
    by (auto simp: store_frame_def Let_def STDOUT_CHANNEL_def STDERR_CHANNEL_def)
next
  assume a: "length data > 2 \<and> of_char (hd data) = (2::nat) \<and> stderr s \<and> combine_output s"
  then show "store_frame s data =
            s\<lparr>channels := (channels s)(1 \<mapsto>
                 (case channels s 1 of None \<Rightarrow> [] | Some old \<Rightarrow> old) @ tl data)\<rparr>"
    by (auto simp: store_frame_def Let_def STDOUT_CHANNEL_def STDERR_CHANNEL_def
             split: option.splits)
  from a show "channels (store_frame s data) 2 = channels s 2"
    by (auto simp: store_frame_def Let_def STDOUT_CHANNEL_def STDERR_CHANNEL_def
             split: option.splits)
qed (simp_all add: ExecWSClient_init_def Let_def)

theorem update_one_event_store_frame_filters_witness:
  "store_frame (ExecWSClient_init [] True False False) (CHR 0x02 # ''err'')
     = ExecWSClient_init [] True False False
   \<and> channels (store_frame (ExecWSClient_init [] True True True) (CHR 0x02 # ''err'')) 1
       = Some ''err''
   \<and> channels (store_frame (ExecWSClient_init [] True True True) (CHR 0x02 # ''err'')) 2 = None
   \<and> channels (store_frame (ExecWSClient_init [] True True False) (CHR 0x03 # ''st'')) 3
       = Some ''st''"
proof -
  let ?d = "CHR 0x02 # ''err''"
  have h1: "length ?d > 2
        \<and> (of_char (hd ?d) = (1::nat) \<and> stdout (ExecWSClient_init [] True False False) = False
            \<or> of_char (hd ?d) = (2::nat) \<and> stderr (ExecWSClient_init [] True False False) = False)"
    by (simp add: ExecWSClient_init_def)
  have h2: "length ?d > 2 \<and> of_char (hd ?d) = (2::nat)
            \<and> stderr (ExecWSClient_init [] True True True)
            \<and> combine_output (ExecWSClient_init [] True True True)"
    by (simp add: ExecWSClient_init_def)
  have h3: "length (CHR 0x03 # ''st'') > 2 \<and> of_char (hd (CHR 0x03 # ''st'')) = (3::nat)
        \<and> (if (3::nat) = 1 then stdout (ExecWSClient_init [] True True False)
            else if (3::nat) = 2 then stderr (ExecWSClient_init [] True True False)
                   \<and> \<not> combine_output (ExecWSClient_init [] True True False)
            else True)"
    by simp
  note t = update_one_event_store_frame_filters
  from t[THEN conjunct2, THEN conjunct2, THEN conjunct1, rule_format, OF h1]
  have a: "store_frame (ExecWSClient_init [] True False False) ?d
             = ExecWSClient_init [] True False False" .
  from t[THEN conjunct2, THEN conjunct2, THEN conjunct2, THEN conjunct1, rule_format, OF h2]
  have b: "channels (store_frame (ExecWSClient_init [] True True True) ?d) 1 = Some ''err''"
          "channels (store_frame (ExecWSClient_init [] True True True) ?d) 2 = None"
    by (simp_all add: ExecWSClient_init_def)
  from t[THEN conjunct2, THEN conjunct1, rule_format, OF h3]
  have c: "channels (store_frame (ExecWSClient_init [] True True False) (CHR 0x03 # ''st'')) 3
             = Some ''st''"
    by (simp add: ExecWSClient_init_def)
  from a b c show ?thesis by simp
qed

subsection \<open>The return code\<close>

lemma store_frame_keeps:
  "connected (store_frame s d) = connected s"
  "sock (store_frame s d) = sock s"
  "returncode_memo (store_frame s d) = returncode_memo s"
  by (simp_all add: store_frame_def Let_def split: option.splits)

lemma store_frame_error_channel:
  "\<not> error_frame (Recv (DATA d)) \<Longrightarrow> channels s ERROR_CHANNEL = None \<Longrightarrow>
     channels (store_frame s d) ERROR_CHANNEL = None"
  by (auto simp: store_frame_def Let_def STDOUT_CHANNEL_def STDERR_CHANNEL_def ERROR_CHANNEL_def
           split: option.splits)

lemma update_no_error_payload:
  assumes "channels s ERROR_CHANNEL = None" "returncode_memo s = None"
    and "\<not> list_ex error_frame (sock s)" and "update s t = Inr s'"
  shows "channels s' ERROR_CHANNEL = None \<and> returncode_memo s' = None
         \<and> \<not> list_ex error_frame (sock s')"
proof (cases "sock s")
  case Nil
  with assms show ?thesis
    by (auto simp: update_def split: if_splits option.splits)
next
  case (Cons ev rest)
  with assms(3) have r: "\<not> error_frame ev" "\<not> list_ex error_frame rest" by simp_all
  show ?thesis
  proof (cases ev)
    case SockClosed
    with Cons assms show ?thesis by (auto simp: update_def split: if_splits option.splits)
  next
    case Timeout
    with Cons assms r show ?thesis by (auto simp: update_def split: if_splits option.splits)
  next
    case (Recv msg)
    with Cons assms r show ?thesis
      by (cases msg)
         (auto simp: update_def store_frame_keeps store_frame_error_channel
               split: if_splits option.splits)
  qed
qed

lemma updates_no_error_payload:
  "channels s ERROR_CHANNEL = None \<Longrightarrow> returncode_memo s = None \<Longrightarrow>
   \<not> list_ex error_frame (sock s) \<Longrightarrow> updates s ts = Inr s' \<Longrightarrow>
     channels s' ERROR_CHANNEL = None \<and> returncode_memo s' = None"
proof (induction ts arbitrary: s)
  case Nil
  then show ?case by simp
next
  case (Cons t ts)
  from Cons.prems(4) obtain s1 where u: "update s t = Inr s1" and r: "updates s1 ts = Inr s'"
    by (auto split: sum.splits)
  from update_no_error_payload[OF Cons.prems(1-3) u] Cons.IH[OF _ _ _ r]
  show ?case by blast
qed

lemma returncode_no_payload:
  "\<not> is_open s \<Longrightarrow> returncode_memo s = None \<Longrightarrow> channels s ERROR_CHANNEL = None \<Longrightarrow>
     returncode sl s = (Inl (ApiException 500 ''Broken connection''), s)"
  by (simp add: returncode_def peek_channel_def)

lemma returncode_memoized:
  "returncode sl s = (Inr (Some v), s') \<Longrightarrow> returncode sl s' = (Inr (Some v), s')"
  by (auto simp: returncode_def is_open_def split: if_splits option.splits sum.splits)

lemma returncode_from_memo:
  "\<not> is_open s \<Longrightarrow> returncode_memo s = Some v \<Longrightarrow> returncode sl s = (Inr (Some v), s)"
  by (simp add: returncode_def)

lemma returncode_sets_memo:
  "returncode sl s = (Inr (Some v), s') \<Longrightarrow> \<not> connected s' \<and> returncode_memo s' = Some v"
  by (auto simp: returncode_def is_open_def split: if_splits option.splits sum.splits)

text \<open>
  C3. \<open>returncode\<close> is \<open>None\<close> while the session is open. On a closed session with
  nothing resolved yet: an error-channel payload that reads as a mapping with status
  \<open>Success\<close> gives 0; one with another status gives the integer parsed from the message
  of the first cause; with no error-channel buffer the read raises
  \<open>ApiException(500)\<close> and leaves the session as it was, in particular when the session
  was built and updated from a socket that never delivered an error-channel frame.
  A read that returned a value set the memo to it and changed nothing else, and a read
  that raised changed nothing. On a closed session whose memo is set the read returns
  the memo and nothing is read again: after a read that returned a value, every later
  read returns the same value and the same session, whatever reader it is given and
  whatever the channel buffers hold by then.
\<close>

theorem returncode_lazy_memoized:
  "(is_open s \<longrightarrow> returncode sl s = (Inr None, s))
   \<and> (\<not> is_open s \<and> returncode_memo s = None \<and> channels s ERROR_CHANNEL = Some err
        \<and> sl err = Inr (YMap flds) \<and> map_of flds ''status'' = Some (YStr ''Success'')
      \<longrightarrow> fst (returncode sl s) = Inr (Some 0))
   \<and> (\<not> is_open s \<and> returncode_memo s = None \<and> channels s ERROR_CHANNEL = Some err
        \<and> sl err = Inr (YMap flds) \<and> map_of flds ''status'' = Some st
        \<and> st \<noteq> YStr ''Success''
        \<and> map_of flds ''details'' = Some (YMap dflds)
        \<and> map_of dflds ''causes'' = Some (YSeq (YMap cause # causes))
        \<and> map_of cause ''message'' = Some (YStr msg) \<and> py_int msg = Some n
      \<longrightarrow> fst (returncode sl s) = Inr (Some n))
   \<and> (\<not> is_open s \<and> returncode_memo s = None \<and> channels s ERROR_CHANNEL = None
      \<longrightarrow> returncode sl s = (Inl (ApiException 500 ''Broken connection''), s))
   \<and> (updates (ExecWSClient_init ws out err' comb) ts = Inr s \<and> \<not> is_open s
        \<and> \<not> list_ex error_frame ws
      \<longrightarrow> returncode sl s = (Inl (ApiException 500 ''Broken connection''), s))
   \<and> (returncode sl s = (Inr (Some v), s')
      \<longrightarrow> returncode sl s' = (Inr (Some v), s') \<and> returncode_memo s' = Some v)
   \<and> (\<not> is_open s \<and> returncode_memo s = Some v
      \<longrightarrow> returncode sl s = (Inr (Some v), s))
   \<and> (returncode sl s = (Inr (Some v), s')
      \<longrightarrow> (\<forall>sl' bufs. returncode sl' (s'\<lparr>channels := bufs\<rparr>)
                          = (Inr (Some v), s'\<lparr>channels := bufs\<rparr>)))
   \<and> (returncode sl s = (Inr (Some v), s') \<and> returncode_memo s = None
      \<longrightarrow> s' = s\<lparr>returncode_memo := Some v\<rparr>)
   \<and> (returncode sl s = (Inl e, s') \<longrightarrow> s' = s)"
proof (intro conjI impI allI)
  assume "is_open s" then show "returncode sl s = (Inr None, s)"
    by (simp add: returncode_def)
next
  assume "\<not> is_open s \<and> returncode_memo s = None \<and> channels s ERROR_CHANNEL = Some err
        \<and> sl err = Inr (YMap flds) \<and> map_of flds ''status'' = Some (YStr ''Success'')"
  then show "fst (returncode sl s) = Inr (Some 0)"
    by (simp add: returncode_def peek_channel_def)
next
  assume "\<not> is_open s \<and> returncode_memo s = None \<and> channels s ERROR_CHANNEL = Some err
        \<and> sl err = Inr (YMap flds) \<and> map_of flds ''status'' = Some st
        \<and> st \<noteq> YStr ''Success''
        \<and> map_of flds ''details'' = Some (YMap dflds)
        \<and> map_of dflds ''causes'' = Some (YSeq (YMap cause # causes))
        \<and> map_of cause ''message'' = Some (YStr msg) \<and> py_int msg = Some n"
  then show "fst (returncode sl s) = Inr (Some n)"
    by (simp add: returncode_def peek_channel_def failure_code_def)
next
  assume "\<not> is_open s \<and> returncode_memo s = None \<and> channels s ERROR_CHANNEL = None"
  then show "returncode sl s = (Inl (ApiException 500 ''Broken connection''), s)"
    by (simp add: returncode_no_payload)
next
  assume a: "updates (ExecWSClient_init ws out err' comb) ts = Inr s \<and> \<not> is_open s
        \<and> \<not> list_ex error_frame ws"
  have "channels (ExecWSClient_init ws out err' comb) ERROR_CHANNEL = None"
       "returncode_memo (ExecWSClient_init ws out err' comb) = None"
       "sock (ExecWSClient_init ws out err' comb) = ws"
    by (simp_all add: ExecWSClient_init_def Let_def)
  with a updates_no_error_payload[of "ExecWSClient_init ws out err' comb" ts s]
  have "channels s ERROR_CHANNEL = None \<and> returncode_memo s = None" by simp
  with a show "returncode sl s = (Inl (ApiException 500 ''Broken connection''), s)"
    by (simp add: returncode_no_payload)
next
  assume "returncode sl s = (Inr (Some v), s')"
  then show "returncode sl s' = (Inr (Some v), s')" by (rule returncode_memoized)
next
  assume "returncode sl s = (Inr (Some v), s')"
  then show "returncode_memo s' = Some v"
    by (rule returncode_sets_memo[THEN conjunct2])
next
  assume "\<not> is_open s \<and> returncode_memo s = Some v"
  then show "returncode sl s = (Inr (Some v), s)"
    by (simp add: returncode_from_memo)
next
  fix sl' bufs
  assume "returncode sl s = (Inr (Some v), s')"
  from returncode_sets_memo[OF this]
  show "returncode sl' (s'\<lparr>channels := bufs\<rparr>) = (Inr (Some v), s'\<lparr>channels := bufs\<rparr>)"
    by (simp add: returncode_from_memo is_open_def)
next
  assume "returncode sl s = (Inr (Some v), s') \<and> returncode_memo s = None"
  then show "s' = s\<lparr>returncode_memo := Some v\<rparr>"
    by (auto simp: returncode_def split: if_splits option.splits sum.splits)
next
  assume "returncode sl s = (Inl e, s')"
  then show "s' = s"
    by (auto simp: returncode_def split: if_splits option.splits sum.splits)
qed


theorem returncode_lazy_memoized_witness:
  "returncode ex_status_reader (ExecWSClient_init [] True True False)
     = (Inr None, ExecWSClient_init [] True True False)
   \<and> fst (returncode ex_status_reader (ex_closed [ERROR_CHANNEL \<mapsto> ''status: Success'']))
       = Inr (Some 0)
   \<and> returncode ex_status_reader (ex_closed [ERROR_CHANNEL \<mapsto> ex_failure_137])
       = (Inr (Some 137),
          (ex_closed [ERROR_CHANNEL \<mapsto> ex_failure_137])\<lparr>returncode_memo := Some 137\<rparr>)
   \<and> returncode ex_status_reader (ex_closed Map.empty)
       = (Inl (ApiException 500 ''Broken connection''), ex_closed Map.empty)
   \<and> returncode ex_status_reader (ex_closed [STDOUT_CHANNEL \<mapsto> ''out''])
       = (Inl (ApiException 500 ''Broken connection''), ex_closed [STDOUT_CHANNEL \<mapsto> ''out''])
   \<and> returncode ex_status_reader
        ((ex_closed [ERROR_CHANNEL \<mapsto> ex_failure_137])\<lparr>returncode_memo := Some 137\<rparr>)
       = (Inr (Some 137),
          (ex_closed [ERROR_CHANNEL \<mapsto> ex_failure_137])\<lparr>returncode_memo := Some 137\<rparr>)
   \<and> returncode (\<lambda>t. Inl (PyExc ''yaml.YAMLError''))
        ((ex_closed [ERROR_CHANNEL \<mapsto> ex_failure_137])
           \<lparr>returncode_memo := Some 137, channels := Map.empty\<rparr>)
       = (Inr (Some 137),
          (ex_closed [ERROR_CHANNEL \<mapsto> ex_failure_137])
            \<lparr>returncode_memo := Some 137, channels := Map.empty\<rparr>)"
proof -
  let ?s = "ex_closed [ERROR_CHANNEL \<mapsto> ex_failure_137]"
  let ?doc = "[(''status'', YStr ''Failure''),
               (''details'', YMap [(''causes'',
                  YSeq [YMap [(''reason'', YStr ''ExitCode''), (''message'', YStr ''137'')]])])]"
  have p137: "py_int ''137'' = Some 137" by code_simp
  have ne: "ex_failure_137 \<noteq> ''status: Success''" by (simp add: ex_failure_137_def)
  have rd: "ex_status_reader ex_failure_137 = Inr (YMap ?doc)"
    using ne by (simp add: ex_status_reader_def)
  have c: "\<not> is_open (ex_closed b)" "returncode_memo (ex_closed b) = None"
          "channels (ex_closed b) = b" for b
    by (simp_all add: ex_closed_def is_open_def)
  note t = returncode_lazy_memoized
  have w1: "returncode ex_status_reader (ExecWSClient_init [] True True False)
              = (Inr None, ExecWSClient_init [] True True False)"
    by (rule t[THEN conjunct1, rule_format])
       (simp add: ExecWSClient_init_def is_open_def)
  have w2: "fst (returncode ex_status_reader (ex_closed [ERROR_CHANNEL \<mapsto> ''status: Success'']))
              = Inr (Some 0)"
    by (rule t[where err="''status: Success''"
            and flds="[(''status'', YStr ''Success'')]",
            THEN conjunct2, THEN conjunct1, rule_format])
       (simp add: c ex_status_reader_def)
  have w3a: "fst (returncode ex_status_reader ?s) = Inr (Some 137)"
    by (rule t[where err="ex_failure_137" and st="YStr ''Failure''" and flds="?doc"
            and dflds="[(''causes'',
                   YSeq [YMap [(''reason'', YStr ''ExitCode''), (''message'', YStr ''137'')]])]"
            and cause="[(''reason'', YStr ''ExitCode''), (''message'', YStr ''137'')]"
            and causes="[]" and msg="''137''",
            THEN conjunct2, THEN conjunct2, THEN conjunct1, rule_format])
       (simp add: c p137 rd)
  obtain s1 where r0: "returncode ex_status_reader ?s = (Inr (Some 137), s1)"
    using w3a by (cases "returncode ex_status_reader ?s") auto
  from t[THEN conjunct2, THEN conjunct2, THEN conjunct2, THEN conjunct2, THEN conjunct2,
         THEN conjunct2, THEN conjunct2, THEN conjunct2, THEN conjunct1, rule_format,
         OF conjI[OF r0 c(2)]]
  have s1: "s1 = ?s\<lparr>returncode_memo := Some 137\<rparr>" .
  from r0 s1 have w3: "returncode ex_status_reader ?s
                        = (Inr (Some 137), ?s\<lparr>returncode_memo := Some 137\<rparr>)" by simp
  have w4: "returncode ex_status_reader (ex_closed Map.empty)
       = (Inl (ApiException 500 ''Broken connection''), ex_closed Map.empty)"
    by (rule t[THEN conjunct2, THEN conjunct2, THEN conjunct2, THEN conjunct1, rule_format])
       (simp add: c)
  have u: "updates (ExecWSClient_init [Recv (DATA (CHR 0x01 # ''out'')), Recv CLOSE] True True False)
             [Some 5, Some 5] = Inr (ex_closed [STDOUT_CHANNEL \<mapsto> ''out''])"
    apply (simp add: ExecWSClient_init_def update_def is_open_def store_frame_def
          STDOUT_CHANNEL_def STDERR_CHANNEL_def)
    apply (simp add: ex_closed_def)
    done
  have w5: "returncode ex_status_reader (ex_closed [STDOUT_CHANNEL \<mapsto> ''out''])
       = (Inl (ApiException 500 ''Broken connection''), ex_closed [STDOUT_CHANNEL \<mapsto> ''out''])"
    by (rule t[where ws="[Recv (DATA (CHR 0x01 # ''out'')), Recv CLOSE]"
            and out=True and err'=True and comb=False and ts="[Some 5, Some 5]",
            THEN conjunct2, THEN conjunct2, THEN conjunct2, THEN conjunct2, THEN conjunct1,
            rule_format])
       (use u in \<open>simp add: c ERROR_CHANNEL_def del: updates.simps\<close>)
  have w6: "returncode ex_status_reader (?s\<lparr>returncode_memo := Some 137\<rparr>)
       = (Inr (Some 137), ?s\<lparr>returncode_memo := Some 137\<rparr>)"
    by (rule t[THEN conjunct2, THEN conjunct2, THEN conjunct2,
            THEN conjunct2, THEN conjunct2, THEN conjunct1, rule_format, THEN conjunct1, OF w3])
  have w7: "returncode (\<lambda>t. Inl (PyExc ''yaml.YAMLError''))
        (?s\<lparr>returncode_memo := Some 137, channels := Map.empty\<rparr>)
       = (Inr (Some 137), ?s\<lparr>returncode_memo := Some 137, channels := Map.empty\<rparr>)"
    using t[THEN conjunct2, THEN conjunct2, THEN conjunct2, THEN conjunct2, THEN conjunct2,
            THEN conjunct2, THEN conjunct2, THEN conjunct1, rule_format, OF w3,
            of "\<lambda>t. Inl (PyExc ''yaml.YAMLError'')" Map.empty]
    by simp
  from w1 w2 w3 w4 w5 w6 w7 show ?thesis by (intro conjI)
qed

section \<open>Properties of the container manager\<close>

subsection \<open>Which container's status is read\<close>

lemma first_other_found:
  "first_other uc sts = Inr c \<Longrightarrow>
     (\<exists>pre post. sts = pre @ c # post \<and> (\<forall>x\<in>set pre. name x = uc)) \<and> name c \<noteq> uc"
proof (induction sts)
  case Nil
  then show ?case by simp
next
  case (Cons a sts)
  show ?case
  proof (cases "name a \<noteq> uc")
    case True
    with Cons.prems have "a = c" by simp
    with True show ?thesis by (intro conjI exI[of _ "[]"] exI[of _ sts]) auto
  next
    case False
    with Cons.prems have "first_other uc sts = Inr c" by simp
    from Cons.IH[OF this] obtain pre post
      where "sts = pre @ c # post" "\<forall>x\<in>set pre. name x = uc" "name c \<noteq> uc" by blast
    with False show ?thesis
      by (intro conjI exI[of _ "a # pre"] exI[of _ post]) auto
  qed
qed

lemma first_other_none:
  "(\<forall>x\<in>set sts. name x = uc) \<Longrightarrow>
     first_other uc sts = Inl (ApiException 404 ''Fuzzer container not found'')"
  by (induction sts) auto

lemma exec_command_calls:
  "exec_command cs m w cmd d ev i ou er t = Some (r, calls) \<Longrightarrow>
     PodExec (pod_name m) (namespace m) (user_container m)
       [paths_runner_binary m, paths_runner_config m] \<in> set calls"
  by (auto simp: exec_command_def Let_def split: sum.splits option.splits prod.splits)

lemma first_other_first:
  "(\<forall>x\<in>set pre. name x = uc) \<Longrightarrow> name c \<noteq> uc \<Longrightarrow>
     first_other uc (pre @ c # post) = Inr c"
  by (induction pre) auto

lemma first_other_404:
  "first_other uc sts = Inl e \<Longrightarrow>
     e = ApiException 404 ''Fuzzer container not found'' \<and> (\<forall>x\<in>set sts. name x = uc)"
  by (induction sts) (auto split: if_splits)

lemma dispatch_ambiguous_result:
  assumes "rc \<in> {102, 137, 143}" and "read_fuzzer_container m (pod_read w) = Inr st"
  shows "fst (dispatch cs m w rc logs out) =
     (case terminated (state st) of
        None \<Rightarrow> Inl (Agent (InternalError cs None))
      | Some tm \<Rightarrow>
          if exit_code tm = 101 then Inl (Agent (TmpfsLimitExceeded cs))
          else if exit_code tm = 102 then Inl (Agent (FuzzerAbortedError cs))
          else if lower (strip (reason tm)) = ''oomkilled'' then Inl (Agent (RamLimitExceeded cs))
          else (case read_monitor_output (pod_log w) of
                  Inl e \<Rightarrow> Inl e | Inr l \<Rightarrow> Inl (Agent (InternalError cs None))))"
  using assms by (auto simp: dispatch_def Let_def split: sum.splits option.splits)

lemma exec_command_reaches_dispatch:
  assumes "exec_session w = Inr ws"
    and "drain (ExecWSClient_init ws True True False) [] [] = Some (Inr (resp, logs, out))"
    and "fst (returncode (safe_load w) resp) = Inr (Some rc)"
  shows "exec_command cs m w cmd d ev i ou er t =
     Some (fst (dispatch cs m w rc logs out),
           [WriteRunnerConfig (paths_runner_config m)
              \<lparr>command = cmd, env = ev, cwd = d, streams_stdin = i, streams_stdout = ou,
               streams_stderr = er, poll_interval_ms = settings_poll_interval_ms m,
               grace_period_sec = settings_grace_period_sec m, run_timeout_sec = t\<rparr>,
            PodExec (pod_name m) (namespace m) (user_container m)
              [paths_runner_binary m, paths_runner_config m]]
           @ snd (dispatch cs m w rc logs out))"
  using assms by (simp add: exec_command_def Let_def)

text \<open>
  C10. \<open>read_fuzzer_container\<close> returns a status exactly when the pod's container
  statuses hold an entry whose name is not the user container's, and then it is the
  first such entry: every entry before it bears the user container's name. On a list of
  statuses it raises \<open>ApiException(404)\<close> exactly when every entry bears the user
  container's name. Every \<open>exec_command\<close> that returns has executed into the user
  container. And when \<open>exec_command\<close> reaches the dispatch with runner exit code 102,
  137 or 143, what it raises is decided by the state of that first entry not named as
  the user container, whatever the entries named as the user container say.
\<close>

theorem read_fuzzer_container_never_user_container:
  "((read_fuzzer_container m pod = Inr c) =
      (\<exists>pre post. pod = Inr (Some (pre @ c # post))
                   \<and> (\<forall>x\<in>set pre. name x = user_container m)
                   \<and> name c \<noteq> user_container m))
   \<and> ((read_fuzzer_container m (Inr (Some sts))
          = Inl (ApiException 404 ''Fuzzer container not found''))
        = (\<forall>x\<in>set sts. name x = user_container m))
   \<and> (exec_command cs m w cmd d ev i ou er t = Some (r, calls) \<longrightarrow>
        PodExec (pod_name m) (namespace m) (user_container m)
          [paths_runner_binary m, paths_runner_config m] \<in> set calls)
   \<and> (exec_session w = Inr ws
        \<and> drain (ExecWSClient_init ws True True False) [] [] = Some (Inr (resp, logs, out))
        \<and> fst (returncode (safe_load w) resp) = Inr (Some rc)
        \<and> rc \<in> {102, 137, 143}
        \<and> pod_read w = Inr (Some (pre @ c # post))
        \<and> (\<forall>x\<in>set pre. name x = user_container m) \<and> name c \<noteq> user_container m
      \<longrightarrow> map_option fst (exec_command cs m w cmd d ev i ou er t) =
            Some (case terminated (state c) of
                    None \<Rightarrow> Inl (Agent (InternalError cs None))
                  | Some tm \<Rightarrow>
                      if exit_code tm = 101 then Inl (Agent (TmpfsLimitExceeded cs))
                      else if exit_code tm = 102 then Inl (Agent (FuzzerAbortedError cs))
                      else if lower (strip (reason tm)) = ''oomkilled''
                      then Inl (Agent (RamLimitExceeded cs))
                      else (case read_monitor_output (pod_log w) of
                              Inl e \<Rightarrow> Inl e
                            | Inr l \<Rightarrow> Inl (Agent (InternalError cs None)))))"
proof (intro conjI impI)
  show "(read_fuzzer_container m pod = Inr c) =
      (\<exists>pre post. pod = Inr (Some (pre @ c # post))
                   \<and> (\<forall>x\<in>set pre. name x = user_container m)
                   \<and> name c \<noteq> user_container m)"
  proof
    assume "read_fuzzer_container m pod = Inr c"
    then obtain sts' where p: "pod = Inr (Some sts')"
        and f: "first_other (user_container m) sts' = Inr c"
      by (auto simp: read_fuzzer_container_def split: sum.splits option.splits)
    from first_other_found[OF f] p
    show "\<exists>pre post. pod = Inr (Some (pre @ c # post))
                   \<and> (\<forall>x\<in>set pre. name x = user_container m)
                   \<and> name c \<noteq> user_container m" by auto
  next
    assume "\<exists>pre post. pod = Inr (Some (pre @ c # post))
                   \<and> (\<forall>x\<in>set pre. name x = user_container m)
                   \<and> name c \<noteq> user_container m"
    then show "read_fuzzer_container m pod = Inr c"
      by (auto simp: read_fuzzer_container_def first_other_first)
  qed
next
  show "(read_fuzzer_container m (Inr (Some sts))
          = Inl (ApiException 404 ''Fuzzer container not found''))
        = (\<forall>x\<in>set sts. name x = user_container m)"
    by (auto simp: read_fuzzer_container_def first_other_none dest: first_other_404)
next
  assume "exec_command cs m w cmd d ev i ou er t = Some (r, calls)"
  then show "PodExec (pod_name m) (namespace m) (user_container m)
          [paths_runner_binary m, paths_runner_config m] \<in> set calls"
    by (rule exec_command_calls)
next
  assume a: "exec_session w = Inr ws
        \<and> drain (ExecWSClient_init ws True True False) [] [] = Some (Inr (resp, logs, out))
        \<and> fst (returncode (safe_load w) resp) = Inr (Some rc)
        \<and> rc \<in> {102, 137, 143}
        \<and> pod_read w = Inr (Some (pre @ c # post))
        \<and> (\<forall>x\<in>set pre. name x = user_container m) \<and> name c \<noteq> user_container m"
  from a have a5: "pod_read w = Inr (Some (pre @ c # post))"
      and a6: "\<forall>x\<in>set pre. name x = user_container m"
      and a7: "name c \<noteq> user_container m"
      and rc: "rc \<in> {102, 137, 143}" by blast+
  have rf: "read_fuzzer_container m (pod_read w) = Inr c"
    by (simp add: a5 read_fuzzer_container_def first_other_first[OF a6 a7])
  from a have a1: "exec_session w = Inr ws" by (rule conjunct1)
  from a have a2: "drain (ExecWSClient_init ws True True False) [] []
                     = Some (Inr (resp, logs, out))"
    by (rule conjunct2[THEN conjunct1])
  from a have a3: "fst (returncode (safe_load w) resp) = Inr (Some rc)"
    by (rule conjunct2[THEN conjunct2, THEN conjunct1])
  note e = exec_command_reaches_dispatch[OF a1 a2 a3, of cs m cmd d ev i ou er t]
  show "map_option fst (exec_command cs m w cmd d ev i ou er t) =
            Some (case terminated (state c) of
                    None \<Rightarrow> Inl (Agent (InternalError cs None))
                  | Some tm \<Rightarrow>
                      if exit_code tm = 101 then Inl (Agent (TmpfsLimitExceeded cs))
                      else if exit_code tm = 102 then Inl (Agent (FuzzerAbortedError cs))
                      else if lower (strip (reason tm)) = ''oomkilled''
                      then Inl (Agent (RamLimitExceeded cs))
                      else (case read_monitor_output (pod_log w) of
                              Inl e \<Rightarrow> Inl e
                            | Inr l \<Rightarrow> Inl (Agent (InternalError cs None))))"
    unfolding e by (simp only: option.map fst_conv dispatch_ambiguous_result[OF rc rf])
qed

theorem read_fuzzer_container_never_user_container_witness:
  "read_fuzzer_container ex_manager
       (Inr (Some [ex_status ''target'' None (Some \<lparr>exit_code = 101, reason = ''Error''\<rparr>),
                   ex_status ''target'' (Some ()) None,
                   ex_status ''monitor'' None (Some \<lparr>exit_code = 137, reason = ''OOMKilled''\<rparr>),
                   ex_status ''sidecar'' (Some ()) None]))
     = Inr (ex_status ''monitor'' None (Some \<lparr>exit_code = 137, reason = ''OOMKilled''\<rparr>))
   \<and> read_fuzzer_container ex_manager
         (Inr (Some [ex_status ''target'' (Some ()) None, ex_status ''target'' (Some ()) None]))
       = Inl (ApiException 404 ''Fuzzer container not found'')
   \<and> map_option fst
        (exec_command ex_codes ex_manager
           (ex_cluster [ex_status ''target'' None (Some \<lparr>exit_code = 101, reason = ''Error''\<rparr>),
                        ex_status ''target'' (Some ()) None,
                        ex_status ''monitor'' None
                          (Some \<lparr>exit_code = 137, reason = ''OOMKilled''\<rparr>),
                        ex_status ''sidecar'' (Some ()) None])
           [''fuzz''] ''/'' [] None None None None)
       = Some (Inl (Agent (RamLimitExceeded ex_codes)))"
proof -
  let ?a = "ex_status ''target'' None (Some \<lparr>exit_code = 101, reason = ''Error''\<rparr>)"
  let ?a' = "ex_status ''target'' (Some ()) None"
  let ?tm = "\<lparr>exit_code = 137, reason = ''OOMKilled''\<rparr>"
  let ?b = "ex_status ''monitor'' None (Some ?tm)"
  let ?c = "ex_status ''sidecar'' (Some ()) None"
  let ?w = "ex_cluster [?a, ?a', ?b, ?c]"
  let ?ws = "[Recv (DATA (CHR 0x03 # ex_failure_137)), Recv CLOSE]"
  let ?resp = "\<lparr>connected = False, channels = [ERROR_CHANNEL \<mapsto> ex_failure_137], stdout = True,
                stderr = True, combine_output = False, sock = [], returncode_memo = None\<rparr>"
  note t = read_fuzzer_container_never_user_container[where m=ex_manager and cs=ex_codes]
  have n: "\<forall>x\<in>set [?a, ?a']. name x = user_container ex_manager"
          "name ?b \<noteq> user_container ex_manager"
    by (simp_all add: ex_manager_def ex_status_def)
  have l: "[?a, ?a', ?b, ?c] = [?a, ?a'] @ ?b # [?c]" by simp
  have w1: "read_fuzzer_container ex_manager (Inr (Some [?a, ?a', ?b, ?c])) = Inr ?b"
    using n by (subst t[THEN conjunct1]) (intro exI[of _ "[?a, ?a']"] exI[of _ "[?c]"], simp)
  have w2: "read_fuzzer_container ex_manager (Inr (Some [?a', ?a']))
              = Inl (ApiException 404 ''Fuzzer container not found'')"
    by (subst t[THEN conjunct2, THEN conjunct1]) (simp add: ex_manager_def ex_status_def)
  have ln: "length ex_failure_137 > 1" by (simp add: ex_failure_137_def)
  have ne: "ex_failure_137 \<noteq> ''status: Success''" by (simp add: ex_failure_137_def)
  have p137: "py_int ''137'' = Some 137" by code_simp
  have h1: "exec_session ?w = Inr ?ws" by (simp add: ex_cluster_def)
  have h2: "drain (ExecWSClient_init ?ws True True False) [] [] = Some (Inr (?resp, [], []))"
    using ln
    by (simp add: drain.simps ExecWSClient_init_def update_def is_open_def store_frame_def
          read_stderr_def read_stdout_def read_channel_def add_text_def
          STDOUT_CHANNEL_def STDERR_CHANNEL_def ERROR_CHANNEL_def numeral_3_eq_3)
  have h3: "fst (returncode (safe_load ?w) ?resp) = Inr (Some 137)"
    using ne p137
    by (simp add: returncode_def is_open_def peek_channel_def ex_cluster_def
          ex_status_reader_def failure_code_def)
  have h4: "(137::int) \<in> {102, 137, 143}" by simp
  have h5: "pod_read ?w = Inr (Some ([?a, ?a'] @ ?b # [?c]))" by (simp add: ex_cluster_def)
  have o: "lower (strip ''OOMKilled'') = ''oomkilled''" by code_simp
  from t[THEN conjunct2, THEN conjunct2, THEN conjunct2, rule_format,
         where w="?w" and ws="?ws" and resp="?resp" and logs="[]" and out="[]" and rc=137
           and pre="[?a, ?a']" and c="?b" and post="[?c]" and cmd="[''fuzz'']" and d="''/''"
           and ev="[]" and i=None and ou=None and er=None and t=None] h1 h2 h3 h4 h5 n
  have w3: "map_option fst (exec_command ex_codes ex_manager ?w
              [''fuzz''] ''/'' [] None None None None)
            = Some (Inl (Agent (RamLimitExceeded ex_codes)))"
    using o by (simp add: ex_status_def del: set_simps)
  from w1 w2 w3 show ?thesis by (intro conjI)
qed

subsection \<open>The exit-code dispatch\<close>













section \<open>Properties of the orchestrator\<close>

subsection \<open>The error taxonomy\<close>

text \<open>
  C8 (amended). \<open>InternalError\<close>, \<open>InvalidConfigError\<close>, \<open>FuzzerLaunchError\<close>,
  \<open>FuzzerAbortedError\<close>, \<open>RamLimitExceeded\<close> and \<open>TmpfsLimitExceeded\<close> each carry the code
  constant of their own; the last two are kinds of \<open>ResourceLimitExceeded\<close>.
  \<open>TimeLimitExceeded\<close> and the four file-transfer errors are kinds of \<open>InternalError\<close>
  and carry its code; \<open>TimeLimitExceeded\<close> is not a kind of \<open>ResourceLimitExceeded\<close>.
  The orchestrator's handler around the run turns a domain error into a status with the
  error's own code, message and details.
\<close>

theorem error_taxonomy_codes:
  "agent_error.code (InternalError cs d) = E_INTERNAL_ERROR cs
   \<and> agent_error.code (InvalidConfigError cs x) = E_CONFIG_INVALID cs
   \<and> agent_error.code (FuzzerLaunchError cs msg d) = E_FUZZER_LAUNCH_ERROR cs
   \<and> agent_error.code (FuzzerAbortedError cs) = E_FUZZER_ABORTED cs
   \<and> agent_error.code (RamLimitExceeded cs) = E_RAM_LIMIT_EXCEEDED cs
   \<and> isinstance (RamLimitExceeded cs) CResourceLimitExceeded
   \<and> agent_error.code (TmpfsLimitExceeded cs) = E_TMPFS_LIMIT_EXCEEDED cs
   \<and> isinstance (TmpfsLimitExceeded cs) CResourceLimitExceeded
   \<and> agent_error.code (TimeLimitExceeded cs d) = E_INTERNAL_ERROR cs
   \<and> isinstance (TimeLimitExceeded cs d) CInternalError
   \<and> \<not> isinstance (TimeLimitExceeded cs d) CResourceLimitExceeded
   \<and> agent_error.code (FileDownloadError cs d) = E_INTERNAL_ERROR cs
   \<and> isinstance (FileDownloadError cs d) CInternalError
   \<and> agent_error.code (FileUploadError cs d) = E_INTERNAL_ERROR cs
   \<and> isinstance (FileUploadError cs d) CInternalError
   \<and> agent_error.code (RemoteFileDeleteError cs d) = E_INTERNAL_ERROR cs
   \<and> isinstance (RemoteFileDeleteError cs d) CInternalError
   \<and> agent_error.code (RemoteFileLookupError cs d) = E_INTERNAL_ERROR cs
   \<and> isinstance (RemoteFileLookupError cs d) CInternalError
   \<and> classify cs b (Agent e) = Some (status_of_error e)
   \<and> Status.code (status_of_error e) = agent_error.code e
   \<and> Status.message (status_of_error e) = agent_error.message e
   \<and> Status.details (status_of_error e) = agent_error.details e"
  by (simp add: isinstance_def InternalError_def InvalidConfigError_def FuzzerLaunchError_def
        FuzzerAbortedError_def RamLimitExceeded_def TmpfsLimitExceeded_def TimeLimitExceeded_def
        FileDownloadError_def FileUploadError_def RemoteFileDeleteError_def
        RemoteFileLookupError_def classify_def status_of_error_def)

text \<open>
  C8 as first stated fails: \<open>TimeLimitExceeded\<close> is not an instance of
  \<open>ResourceLimitExceeded\<close>, and its code is that of \<open>InternalError\<close>.
\<close>

theorem time_limit_is_internal_counterexample:
  "\<not> isinstance (TimeLimitExceeded ex_codes None) CResourceLimitExceeded
   \<and> agent_error.code (TimeLimitExceeded ex_codes None)
       = agent_error.code (InternalError ex_codes None)"
  by (simp add: isinstance_def TimeLimitExceeded_def InternalError_def)

subsection \<open>Crash offload\<close>

lemma send_crash_cases:
  "send_crash cs io mx run_id created crash out = (r, crash', out') \<Longrightarrow>
     crash' = crash \<or> crash' = crash\<lparr>input_id := Some (run_id @ random_string10 io), input := None\<rparr>"
  by (auto simp: send_crash_def upload_crash_def Let_def
           split: option.splits sum.splits if_splits prod.splits)

text \<open>
  C6 (amended). A crash whose inline input is longer than the threshold, when decoding,
  upload and sending succeed, leaves \<open>_send_crash\<close> with the decoded bytes in content
  storage under the identifier \<open>run_id\<close> followed by the random string, with that
  identifier recorded and the inline input cleared, and that is the crash sent. After
  any send, the crash's \<open>input\<close> and \<open>input_id\<close> are not both populated if they were not
  both populated before.
\<close>

theorem send_crash_offloads_oversized:
  "(input crash = Some inp \<and> length inp > mx \<and> b64decode io inp = Inr bytes
      \<and> \<not> upload_refused io \<and> produce_crash io = None
    \<longrightarrow> send_crash cs io mx run_id created crash out =
          (Inr (),
           crash\<lparr>input_id := Some (run_id @ random_string10 io), input := None\<rparr>,
           out\<lparr>crash_store := (crash_store out)(run_id @ random_string10 io \<mapsto> bytes),
               crash_msgs := crash_msgs out @
                 [(crash\<lparr>input_id := Some (run_id @ random_string10 io), input := None\<rparr>,
                   created)]\<rparr>))
   \<and> (input crash = Some inp \<and> length inp > mx \<and> b64decode io inp = Inl e
      \<longrightarrow> send_crash cs io mx run_id created crash out = (Inl e, crash, out))
   \<and> (input crash = Some inp \<and> length inp > mx \<and> b64decode io inp = Inr bytes
        \<and> upload_refused io
      \<longrightarrow> send_crash cs io mx run_id created crash out
            = (Inl (Agent (FileUploadError cs (Some ''crash''))), crash, out))
   \<and> (send_crash cs io mx run_id created crash out = (r, crash', out')
        \<and> (input crash = None \<or> input_id crash = None)
      \<longrightarrow> input crash' = None \<or> input_id crash' = None)"
proof (intro conjI impI)
  assume "input crash = Some inp \<and> length inp > mx \<and> b64decode io inp = Inl e"
  then show "send_crash cs io mx run_id created crash out = (Inl e, crash, out)"
    by (simp add: send_crash_def)
next
  assume "input crash = Some inp \<and> length inp > mx \<and> b64decode io inp = Inr bytes
        \<and> upload_refused io"
  then show "send_crash cs io mx run_id created crash out
            = (Inl (Agent (FileUploadError cs (Some ''crash''))), crash, out)"
    by (simp add: send_crash_def upload_crash_def)
next
  assume "input crash = Some inp \<and> length inp > mx \<and> b64decode io inp = Inr bytes
      \<and> \<not> upload_refused io \<and> produce_crash io = None"
  then show "send_crash cs io mx run_id created crash out =
          (Inr (),
           crash\<lparr>input_id := Some (run_id @ random_string10 io), input := None\<rparr>,
           out\<lparr>crash_store := (crash_store out)(run_id @ random_string10 io \<mapsto> bytes),
               crash_msgs := crash_msgs out @
                 [(crash\<lparr>input_id := Some (run_id @ random_string10 io), input := None\<rparr>,
                   created)]\<rparr>)"
    by (simp add: send_crash_def upload_crash_def)
next
  assume a: "send_crash cs io mx run_id created crash out = (r, crash', out')
        \<and> (input crash = None \<or> input_id crash = None)"
  with send_crash_cases[of cs io mx run_id created crash out r crash' out']
  show "input crash' = None \<or> input_id crash' = None" by auto
qed

theorem send_crash_offloads_oversized_witness:
  "send_crash ex_codes ex_crash_io 3 ''run'' 20 (ex_crash None (Some ''QUJD'')) no_output
     = (Inr (), ex_crash (Some ''runk3x9q0ab7z'') None,
        no_output\<lparr>crash_store := [''runk3x9q0ab7z'' \<mapsto> ''ABC''],
                   crash_msgs := [(ex_crash (Some ''runk3x9q0ab7z'') None, 20)]\<rparr>)
   \<and> (input (ex_crash (Some ''runk3x9q0ab7z'') None) = None
        \<or> input_id (ex_crash (Some ''runk3x9q0ab7z'') None) = None)"
proof -
  have h: "input (ex_crash None (Some ''QUJD'')) = Some ''QUJD'' \<and> length ''QUJD'' > 3
           \<and> b64decode ex_crash_io ''QUJD'' = Inr ''ABC''
           \<and> \<not> upload_refused ex_crash_io \<and> produce_crash ex_crash_io = None"
    by (simp add: ex_crash_def ex_crash_io_def)
  note t = send_crash_offloads_oversized[where crash="ex_crash None (Some ''QUJD'')"
      and inp="''QUJD''" and mx=3 and io=ex_crash_io and bytes="''ABC''" and cs=ex_codes
      and run_id="''run''" and created=20 and out=no_output and r="Inr ()"
      and crash'="ex_crash (Some ''runk3x9q0ab7z'') None"
      and out'="no_output\<lparr>crash_store := [''runk3x9q0ab7z'' \<mapsto> ''ABC''],
                   crash_msgs := [(ex_crash (Some ''runk3x9q0ab7z'') None, 20)]\<rparr>"]
  from t[THEN conjunct1, rule_format, OF h]
  have s: "send_crash ex_codes ex_crash_io 3 ''run'' 20 (ex_crash None (Some ''QUJD'')) no_output
     = (Inr (), ex_crash (Some ''runk3x9q0ab7z'') None,
        no_output\<lparr>crash_store := [''runk3x9q0ab7z'' \<mapsto> ''ABC''],
                   crash_msgs := [(ex_crash (Some ''runk3x9q0ab7z'') None, 20)]\<rparr>)"
    by (simp add: ex_crash_def ex_crash_io_def no_output_def)
  have p: "input (ex_crash None (Some ''QUJD'')) = None \<or> input_id (ex_crash None (Some ''QUJD'')) = None"
    by (simp add: ex_crash_def)
  from s t[THEN conjunct2, THEN conjunct2, THEN conjunct2, rule_format, OF conjI[OF s p]]
  show ?thesis by (rule conjI)
qed

text \<open>
  C6 as first stated fails: a crash that enters with both fields populated and an
  input at or below the threshold is sent as it is, with both fields populated.
\<close>

theorem send_crash_both_populated_counterexample:
  "send_crash ex_codes ex_crash_io 100 ''run'' 20 (ex_crash (Some ''old'') (Some ''QUJD'')) no_output
     = (Inr (), ex_crash (Some ''old'') (Some ''QUJD''),
        no_output\<lparr>crash_msgs := [(ex_crash (Some ''old'') (Some ''QUJD''), 20)]\<rparr>)
   \<and> input (ex_crash (Some ''old'') (Some ''QUJD'')) \<noteq> None
   \<and> input_id (ex_crash (Some ''old'') (Some ''QUJD'')) \<noteq> None"
  by (simp add: send_crash_def ex_crash_def ex_crash_io_def no_output_def)

subsection \<open>Signals\<close>

lemma install_result:
  "distinct signums \<Longrightarrow>
     install valid signums tab hs =
       (if list_all valid signums then None else Some (PyExc ''ValueError''),
        fold (\<lambda>s t. t(s := CancelTask)) (takeWhile valid signums) tab,
        hs @ map tab (takeWhile valid signums))"
proof (induction signums arbitrary: tab hs)
  case Nil
  then show ?case by simp
next
  case (Cons s rest)
  then have d: "s \<notin> set rest" "distinct rest" by simp_all
  have m: "map (tab(s := CancelTask)) (takeWhile valid rest) = map tab (takeWhile valid rest)"
    using d(1) by (auto dest: set_takeWhileD)
  show ?case using Cons.IH[OF d(2)] m by simp
qed

lemma zip_takeWhile_map:
  "zip xs (map f (takeWhile P xs)) = map (\<lambda>s. (s, f s)) (takeWhile P xs)"
  by (induction xs) simp_all

lemma restore_map:
  "restore (map (\<lambda>s. (s, tab s)) pre) t = (\<lambda>x. if x \<in> set pre then tab x else t x)"
  by (induction pre arbitrary: t) (auto simp: fun_eq_iff)

lemma fold_install:
  "fold (\<lambda>s t. t(s := CancelTask)) pre tab = (\<lambda>x. if x \<in> set pre then CancelTask else tab x)"
  by (induction pre arbitrary: tab) (auto simp: fun_eq_iff)

lemma deliver_all_one_by_one:
  "\<not> locked h \<Longrightarrow>
     deliver_all t h (map (\<lambda>s. Arrival s [] [] []) sigs) =
       Some (if catched h \<or> (\<forall>x\<in>set sigs. t x \<noteq> CancelTask) then h
             else h\<lparr>catched := True, cancels := cancels h + 1\<rparr>)"
proof (induction sigs arbitrary: h)
  case Nil
  then show ?case by simp
next
  case (Cons s sigs)
  show ?case
  proof (cases "t s = CancelTask")
    case False
    with Cons show ?thesis by simp
  next
    case True
    let ?h = "(signal_handler_body (h\<lparr>locked := True\<rparr>))\<lparr>locked := False\<rparr>"
    have l: "\<not> locked ?h" by (simp add: signal_handler_body_def)
    have d: "deliver t h (Arrival s [] [] []) = Some ?h" using True Cons.prems by simp
    have e: "?h = (if catched h then h else h\<lparr>catched := True, cancels := cancels h + 1\<rparr>)"
      using Cons.prems by (simp add: signal_handler_body_def)
    show ?thesis
      using True Cons.prems Cons.IH[OF l]
      by (simp only: list.map deliver_all.simps d option.case) (auto simp: e)
  qed
qed

text \<open>
  C7. The handler takes a lock that is not reentrant. When SIGTERM arrives during the
  run and a second SIGTERM arrives while the handler call for the first holds the lock,
  the nested call waits for the lock forever: \<open>wrapper\<close> never returns, so the second
  signal is not ignored and the dispositions are not restored.
\<close>

theorem second_signal_inside_handler_never_returns:
  "wrapper (\<lambda>s. True) [SIGINT, SIGTERM, SIGHUP] (\<lambda>s. SIG_DFL)
     [Arrival SIGTERM [] [Arrival SIGTERM [] [] []] []]
     (\<lambda>c. if c then Inl CancelledError else Inr (0::nat)) = None"
  by (simp add: wrapper_def SIGINT_def SIGTERM_def SIGHUP_def)

text \<open>
  X3. For distinct signal numbers, when every signal arrives while no handler call is
  running: \<open>wrapper\<close> returns, the dispositions after it are those before it however the
  task ends, the lock is free and \<open>task.cancel()\<close> was called at most once. When all the
  numbers are signals of the platform and at least one of them arrives, \<open>task.cancel()\<close>
  was called exactly once, however many arrive, and the wrapper ends as the cancelled
  task ends; when none arrives the task is not cancelled.
\<close>

theorem signal_handler_one_by_one_cancels_once_and_restores:
  assumes "distinct signums"
  shows "\<exists>r h. wrapper valid signums tab (map (\<lambda>s. Arrival s [] [] []) sigs) task
                 = Some (r, tab, h)
    \<and> cancels h \<le> 1 \<and> \<not> locked h
    \<and> (list_all valid signums \<and> (\<exists>s\<in>set sigs. s \<in> set signums) \<longrightarrow>
         cancels h = 1 \<and> r = task True)
    \<and> (list_all valid signums \<and> sigs = [] \<longrightarrow> cancels h = 0 \<and> r = task False)"
proof -
  let ?pre = "takeWhile valid signums"
  let ?tab1 = "fold (\<lambda>s t. t(s := CancelTask)) ?pre tab"
  let ?h0 = "\<lparr>catched = False, locked = False, cancels = 0\<rparr>"
  have i: "install valid signums tab [] =
       (if list_all valid signums then None else Some (PyExc ''ValueError''), ?tab1, map tab ?pre)"
    using install_result[OF assms, of valid tab "[]"] by simp
  have r: "restore (zip signums (map tab ?pre)) ?tab1 = tab"
    by (simp add: zip_takeWhile_map restore_map fold_install fun_eq_iff)
  have a: "list_all valid signums \<Longrightarrow> ?pre = signums"
    by (simp add: list_all_iff takeWhile_eq_all_conv)
  have d: "deliver_all ?tab1 ?h0 (map (\<lambda>s. Arrival s [] [] []) sigs) =
       Some (if (\<forall>x\<in>set sigs. ?tab1 x \<noteq> CancelTask) then ?h0
             else ?h0\<lparr>catched := True, cancels := 1\<rparr>)"
    using deliver_all_one_by_one[of ?h0 ?tab1 sigs] by simp
  show ?thesis
  proof (cases "list_all valid signums")
    case False
    then show ?thesis by (simp add: wrapper_def i r)
  next
    case True
    have t: "?tab1 s = CancelTask" if "s \<in> set signums" for s
      using that by (simp add: fold_install a[OF True])
    show ?thesis using True t
      by (auto simp: wrapper_def i r d simp del: deliver_all.simps)
  qed
qed

theorem signal_handler_one_by_one_cancels_once_and_restores_witness:
  "distinct [SIGINT, SIGTERM, SIGHUP]
   \<and> (\<exists>h. wrapper (\<lambda>s. True) [SIGINT, SIGTERM, SIGHUP]
              (\<lambda>s. if s = SIGINT then Handler 0 else SIG_DFL)
              (map (\<lambda>s. Arrival s [] [] []) [SIGTERM, SIGINT, SIGTERM])
              (\<lambda>c. if c then Inl CancelledError else Inr (0::nat))
            = Some (Inl CancelledError, (\<lambda>s. if s = SIGINT then Handler 0 else SIG_DFL), h)
          \<and> cancels h = 1)"
proof -
  have d: "distinct [SIGINT, SIGTERM, SIGHUP]"
    by (simp add: SIGINT_def SIGTERM_def SIGHUP_def)
  have h: "list_all (\<lambda>s. True) [SIGINT, SIGTERM, SIGHUP]
           \<and> (\<exists>s\<in>set [SIGTERM, SIGINT, SIGTERM]. s \<in> set [SIGINT, SIGTERM, SIGHUP])"
    by simp
  from signal_handler_one_by_one_cancels_once_and_restores[OF d, where valid="\<lambda>s. True"
      and tab="\<lambda>s. if s = SIGINT then Handler 0 else SIG_DFL"
      and sigs="[SIGTERM, SIGINT, SIGTERM]"
      and task="\<lambda>c. if c then Inl CancelledError else Inr (0::nat)"] h d
  show ?thesis by (auto simp del: deliver.simps deliver_all.simps list.map)
qed

subsection \<open>Exit codes and reports\<close>












end
